theory Spec2Isabelle
  imports Main "HOL-Library.Sublist"
begin

section \<open>The knowledge graph of the quantitative-research server\<close>

text \<open>
  The repository holds two builds of the same \<^verbatim>\<open>KnowledgeGraphManager\<close>:
  \<^verbatim>\<open>src/index.ts\<close> and the compiled \<^verbatim>\<open>src/unnamed/part_000\<close>. The graph
  operations have the same text in both; the builds differ in the tables of valid entity and
  relation types, and only \<^verbatim>\<open>part_000\<close> has the status and priority helpers. The
  operations below therefore take the tables of the build as a parameter.

  Strings are lists of 8-bit characters, read as ASCII text.
\<close>

subsection \<open>Data model\<close>

record Entity =
  name :: string
  entityType :: string
  observations :: "string list"

record Relation =
  "from" :: string
  to :: string
  relationType :: string

record KnowledgeGraph =
  entities :: "Entity list"
  relations :: "Relation list"

record tables =
  VALID_ENTITY_TYPES :: "string list"
  VALID_RELATION_TYPES :: "string list"

definition index_ts :: tables where
  "index_ts = \<lparr>
     VALID_ENTITY_TYPES =
       [''project'', ''dataset'', ''variable'', ''hypothesis'', ''statisticalTest'', ''result'',
        ''analysisScript'', ''visualization'', ''model'', ''literature'', ''researchQuestion'',
        ''finding'', ''participant''],
     VALID_RELATION_TYPES =
       [''correlates_with'', ''predicts'', ''tests'', ''analyzes'', ''produces'', ''visualizes'',
        ''contains'', ''part_of'', ''depends_on'', ''supports'', ''contradicts'', ''derived_from'',
        ''controls_for'', ''moderates'', ''mediates'', ''implements'', ''compares'', ''includes'',
        ''validates'', ''cites'']\<rparr>"

definition part_000 :: tables where
  "part_000 = \<lparr>
     VALID_ENTITY_TYPES =
       [''project'', ''dataset'', ''variable'', ''hypothesis'', ''statisticalTest'', ''result'',
        ''analysisScript'', ''visualization'', ''model'', ''literature'', ''researchQuestion'',
        ''finding'', ''participant'', ''status'', ''priority''],
     VALID_RELATION_TYPES =
       [''contains'', ''derived_from'', ''analyzes'', ''produced_by'', ''supports'',
        ''contradicts'', ''based_on'', ''cites'', ''addresses'', ''precedes'', ''has_status'',
        ''has_priority'']\<rparr>"

definition VALID_STATUS_VALUES :: "string list" where
  "VALID_STATUS_VALUES = [''active'', ''completed'', ''pending'', ''abandoned'']"

definition VALID_PRIORITY_VALUES :: "string list" where
  "VALID_PRIORITY_VALUES = [''high'', ''low'']"

definition validateEntityType :: "tables \<Rightarrow> string \<Rightarrow> bool" where
  "validateEntityType T ty = (ty \<in> set (VALID_ENTITY_TYPES T))"

definition validateRelationType :: "tables \<Rightarrow> string \<Rightarrow> bool" where
  "validateRelationType T ty = (ty \<in> set (VALID_RELATION_TYPES T))"

subsection \<open>Errors, the graph file, and the shape of a call\<close>

text \<open>Every \<^verbatim>\<open>throw new Error(...)\<close> of the manager, with the text it interpolates.\<close>

datatype error =
    InvalidEntityType string
  | EntityNotFound string
  | InvalidRelationType string
  | InvalidStatusValue string
  | InvalidPriorityValue string
  | ProjectNotFound string

text \<open>
  The memory file is absent or holds one graph. \<^verbatim>\<open>loadGraph\<close> answers any read failure
  with the empty graph; \<^verbatim>\<open>saveGraph\<close> overwrites the file.
\<close>

type_synonym graph_file = "KnowledgeGraph option"

definition loadGraph :: "graph_file \<Rightarrow> KnowledgeGraph" where
  "loadGraph file = (case file of None \<Rightarrow> \<lparr>entities = [], relations = []\<rparr> | Some g \<Rightarrow> g)"

definition saveGraph :: "KnowledgeGraph \<Rightarrow> graph_file" where
  "saveGraph graph = Some graph"

text \<open>
  What the body of a method does between its \<^verbatim>\<open>loadGraph\<close> and its end: it throws, or it
  reaches \<^verbatim>\<open>saveGraph\<close> and returns. Both carry the in-memory \<^verbatim>\<open>graph\<close> object as it
  is at that moment.
\<close>

datatype 'a outcome = Throws error KnowledgeGraph | Returns 'a KnowledgeGraph

fun memory :: "'a outcome \<Rightarrow> KnowledgeGraph" where
  "memory (Throws e graph) = graph"
| "memory (Returns x graph) = graph"

text \<open>A mutating method: a throw leaves the file as it was, a return has saved the graph.\<close>

fun finish :: "graph_file \<Rightarrow> 'a outcome \<Rightarrow> (error + 'a) \<times> graph_file" where
  "finish file (Throws e graph) = (Inl e, file)"
| "finish file (Returns x graph) = (Inr x, saveGraph graph)"

subsection \<open>createEntities\<close>

definition createEntities_body :: "tables \<Rightarrow> KnowledgeGraph \<Rightarrow> Entity list \<Rightarrow> Entity list outcome" where
  "createEntities_body T graph batch =
     (let existingEntityNames = set (map name (entities graph)) in
      case find (\<lambda>entity. \<not> validateEntityType T (entityType entity)) batch of
        Some entity \<Rightarrow> Throws (InvalidEntityType (entityType entity)) graph
      | None \<Rightarrow>
          let newEntities = filter (\<lambda>entity. name entity \<notin> existingEntityNames) batch
          in Returns newEntities (graph\<lparr>entities := entities graph @ newEntities\<rparr>))"

definition createEntities :: "tables \<Rightarrow> graph_file \<Rightarrow> Entity list \<Rightarrow> (error + Entity list) \<times> graph_file" where
  "createEntities T file batch = finish file (createEntities_body T (loadGraph file) batch)"

subsection \<open>createRelations\<close>

text \<open>The \<^verbatim>\<open>forEach\<close> of three checks per relation; the first failing check throws.\<close>

fun checkRelations :: "tables \<Rightarrow> string set \<Rightarrow> Relation list \<Rightarrow> error option" where
  "checkRelations T existingEntityNames [] = None"
| "checkRelations T existingEntityNames (relation # rest) =
     (if from relation \<notin> existingEntityNames then Some (EntityNotFound (from relation))
      else if to relation \<notin> existingEntityNames then Some (EntityNotFound (to relation))
      else if \<not> validateRelationType T (relationType relation)
        then Some (InvalidRelationType (relationType relation))
      else checkRelations T existingEntityNames rest)"

text \<open>The key of the duplicate filter: the template \<^verbatim>\<open>`${r.from}:${r.to}:${r.relationType}`\<close>.\<close>

definition relationKey :: "Relation \<Rightarrow> string" where
  "relationKey r = from r @ '':'' @ to r @ '':'' @ relationType r"

definition createRelations_body :: "tables \<Rightarrow> KnowledgeGraph \<Rightarrow> Relation list \<Rightarrow> Relation list outcome" where
  "createRelations_body T graph batch =
     (let existingEntityNames = set (map name (entities graph)) in
      case checkRelations T existingEntityNames batch of
        Some e \<Rightarrow> Throws e graph
      | None \<Rightarrow>
          let existingRelations = set (map relationKey (relations graph));
              newRelations = filter (\<lambda>r. relationKey r \<notin> existingRelations) batch
          in Returns newRelations (graph\<lparr>relations := relations graph @ newRelations\<rparr>))"

definition createRelations :: "tables \<Rightarrow> graph_file \<Rightarrow> Relation list \<Rightarrow> (error + Relation list) \<times> graph_file" where
  "createRelations T file batch = finish file (createRelations_body T (loadGraph file) batch)"

subsection \<open>addObservations\<close>

record ObservationInput =
  entityName :: string
  contents :: "string list"

record ObservationResult =
  resultEntityName :: string
  addedObservations :: "string list"

text \<open>
  \<^verbatim>\<open>graph.entities.find(...)\<close> yields the first object that matches, and the method
  then mutates that object in place: the first match in the list is replaced.
\<close>

fun updateFirst :: "('a \<Rightarrow> bool) \<Rightarrow> ('a \<Rightarrow> 'a) \<Rightarrow> 'a list \<Rightarrow> 'a list" where
  "updateFirst P f [] = []"
| "updateFirst P f (x # xs) = (if P x then f x # xs else x # updateFirst P f xs)"

fun addObservations_loop ::
  "KnowledgeGraph \<Rightarrow> ObservationInput list \<Rightarrow> ObservationResult list \<Rightarrow> ObservationResult list outcome" where
  "addObservations_loop graph [] results = Returns results graph"
| "addObservations_loop graph (observation # rest) results =
     (case find (\<lambda>e. name e = entityName observation) (entities graph) of
        None \<Rightarrow> Throws (EntityNotFound (entityName observation)) graph
      | Some entity \<Rightarrow>
          let existingObservations = set (observations entity);
              newObservations = filter (\<lambda>obs. obs \<notin> existingObservations) (contents observation);
              graph' = graph\<lparr>entities :=
                updateFirst (\<lambda>e. name e = entityName observation)
                  (\<lambda>e. e\<lparr>observations := observations e @ newObservations\<rparr>) (entities graph)\<rparr>
          in addObservations_loop graph' rest
               (results @ [\<lparr>resultEntityName = entityName observation,
                            addedObservations = newObservations\<rparr>]))"

definition addObservations ::
  "graph_file \<Rightarrow> ObservationInput list \<Rightarrow> (error + ObservationResult list) \<times> graph_file" where
  "addObservations file batch = finish file (addObservations_loop (loadGraph file) batch [])"

subsection \<open>deleteEntities, deleteObservations, deleteRelations\<close>

definition deleteEntities_body :: "KnowledgeGraph \<Rightarrow> string list \<Rightarrow> unit outcome" where
  "deleteEntities_body graph entityNames =
     Returns ()
       (graph\<lparr>entities := filter (\<lambda>e. name e \<notin> set entityNames) (entities graph),
              relations := filter (\<lambda>r. from r \<notin> set entityNames \<and> to r \<notin> set entityNames)
                             (relations graph)\<rparr>)"

definition deleteEntities :: "graph_file \<Rightarrow> string list \<Rightarrow> (error + unit) \<times> graph_file" where
  "deleteEntities file entityNames = finish file (deleteEntities_body (loadGraph file) entityNames)"

record ObservationDeletion =
  deletionEntityName :: string
  deletionObservations :: "string list"

fun deleteObservations_loop :: "KnowledgeGraph \<Rightarrow> ObservationDeletion list \<Rightarrow> unit outcome" where
  "deleteObservations_loop graph [] = Returns () graph"
| "deleteObservations_loop graph (deletion # rest) =
     deleteObservations_loop
       (graph\<lparr>entities :=
          updateFirst (\<lambda>e. name e = deletionEntityName deletion)
            (\<lambda>e. e\<lparr>observations :=
               filter (\<lambda>obs. obs \<notin> set (deletionObservations deletion)) (observations e)\<rparr>)
            (entities graph)\<rparr>)
       rest"

definition deleteObservations :: "graph_file \<Rightarrow> ObservationDeletion list \<Rightarrow> (error + unit) \<times> graph_file" where
  "deleteObservations file deletions = finish file (deleteObservations_loop (loadGraph file) deletions)"

definition deleteRelations_body :: "KnowledgeGraph \<Rightarrow> Relation list \<Rightarrow> unit outcome" where
  "deleteRelations_body graph batch =
     Returns ()
       (graph\<lparr>relations :=
          filter (\<lambda>r. \<not> list_ex (\<lambda>toDelete. from r = from toDelete \<and> to r = to toDelete \<and>
                                   relationType r = relationType toDelete) batch)
            (relations graph)\<rparr>)"

definition deleteRelations :: "graph_file \<Rightarrow> Relation list \<Rightarrow> (error + unit) \<times> graph_file" where
  "deleteRelations file batch = finish file (deleteRelations_body (loadGraph file) batch)"

subsection \<open>searchNodes\<close>

text \<open>
  \<^verbatim>\<open>toLowerCase\<close> on ASCII text, and the white space of the regular expression
  \<^verbatim>\<open>\s\<close> within ASCII: tab, line feed, vertical tab, form feed, carriage return, space.
\<close>

definition toLowerCase_char :: "char \<Rightarrow> char" where
  "toLowerCase_char c =
     (let n = (of_char c :: nat) in if 65 \<le> n \<and> n \<le> 90 then char_of (n + 32) else c)"

definition toLowerCase :: "string \<Rightarrow> string" where
  "toLowerCase s = map toLowerCase_char s"

definition isWhiteSpace :: "char \<Rightarrow> bool" where
  "isWhiteSpace c = (let n = (of_char c :: nat) in (9 \<le> n \<and> n \<le> 13) \<or> n = 32)"

text \<open>
  \<^verbatim>\<open>s.split(/\s+/)\<close>: the pieces between the maximal runs of white space. A run at the
  start or at the end of the string leaves an empty piece there, and the empty string splits
  into one empty piece. \<open>piece\<close> is the piece read so far.
\<close>

function split_whitespace :: "string \<Rightarrow> string \<Rightarrow> string list" where
  "split_whitespace piece [] = [piece]"
| "split_whitespace piece (c # cs) =
     (if isWhiteSpace c then piece # split_whitespace [] (dropWhile isWhiteSpace cs)
      else split_whitespace (piece @ [c]) cs)"
  by pat_completeness auto
termination
  by (relation "measure (\<lambda>(piece, s). length s)")
     (auto simp: length_dropWhile_le less_Suc_eq_le)

text \<open>\<^verbatim>\<open>s.includes(term)\<close>: \<open>term\<close> occurs in \<open>s\<close> at some position.\<close>

fun str_includes :: "string \<Rightarrow> string \<Rightarrow> bool" where
  "str_includes [] t = (t = [])"
| "str_includes (c # cs) t = (prefix t (c # cs) \<or> str_includes cs t)"

definition matchesTerm :: "Entity \<Rightarrow> string \<Rightarrow> bool" where
  "matchesTerm entity t =
     (if str_includes (toLowerCase (name entity)) t then True
      else if str_includes (toLowerCase (entityType entity)) t then True
      else list_ex (\<lambda>observation. str_includes (toLowerCase observation) t) (observations entity))"

definition searchNodes :: "graph_file \<Rightarrow> string \<Rightarrow> KnowledgeGraph" where
  "searchNodes file query =
     (let graph = loadGraph file;
          terms = split_whitespace [] (toLowerCase query);
          matchingEntityNames =
            set (map name (filter (\<lambda>entity. list_all (matchesTerm entity) terms) (entities graph)));
          matchingRelations =
            filter (\<lambda>r. from r \<in> matchingEntityNames \<and> to r \<in> matchingEntityNames)
              (relations graph)
      in \<lparr>entities = filter (\<lambda>e. name e \<in> matchingEntityNames) (entities graph),
          relations = matchingRelations\<rparr>)"

text \<open>
  The matching rule in the words of the specification, to compare \<open>searchNodes\<close> with:
  every token of the lower-cased query occurs, as a contiguous substring, in the lower-cased
  name, or in the lower-cased type, or in at least one lower-cased observation. The tokens are
  the pieces of the split; an empty piece occurs in every string.
\<close>

definition everyTokenOccurs :: "string \<Rightarrow> Entity \<Rightarrow> bool" where
  "everyTokenOccurs query e =
     (\<forall>t \<in> set (split_whitespace [] (toLowerCase query)).
        sublist t (toLowerCase (name e)) \<or>
        sublist t (toLowerCase (entityType e)) \<or>
        (\<exists>ob \<in> set (observations e). sublist t (toLowerCase ob)))"

subsection \<open>getProjectOverview\<close>

record DataCollection =
  datasets :: nat
  totalVariables :: nat
  datasetList :: "Entity list"

record Analysis =
  hypotheses :: nat
  models :: nat
  hypothesisList :: "Entity list"
  modelsList :: "Entity list"

record ProjectOverview =
  project :: Entity
  researchQuestions :: "Entity list"
  methodology :: "string list"
  participants :: "string list"
  dataCollection :: DataCollection
  analysis :: Analysis
  findings :: "Entity list"

text \<open>
  The five loops that collect the research questions, datasets, hypotheses, models and
  findings have one text with the entity type changed: for every \<open>part_of\<close> relation into
  the project, in the order of the relation list, the first entity with the relation's
  \<open>from\<close> name and the wanted type is pushed when there is one.
\<close>

definition partOfProject :: "KnowledgeGraph \<Rightarrow> string \<Rightarrow> string \<Rightarrow> Entity list" where
  "partOfProject graph projectName ty =
     List.map_filter
       (\<lambda>relation.
          if relationType relation = ''part_of'' \<and> to relation = projectName
          then find (\<lambda>e. name e = from relation \<and> entityType e = ty) (entities graph)
          else None)
       (relations graph)"

definition datasetVariables :: "KnowledgeGraph \<Rightarrow> Entity \<Rightarrow> Entity list" where
  "datasetVariables graph dataset =
     List.map_filter
       (\<lambda>relation.
          if relationType relation = ''contains'' \<and> from relation = name dataset
          then find (\<lambda>e. name e = to relation \<and> entityType e = ''variable'') (entities graph)
          else None)
       (relations graph)"

text \<open>The method only reads: it has no \<^verbatim>\<open>saveGraph\<close>, so the file it leaves is the file it got.\<close>

definition getProjectOverview :: "graph_file \<Rightarrow> string \<Rightarrow> (error + ProjectOverview) \<times> graph_file" where
  "getProjectOverview file projectName =
     (let graph = loadGraph file in
      case find (\<lambda>e. name e = projectName \<and> entityType e = ''project'') (entities graph) of
        None \<Rightarrow> (Inl (ProjectNotFound projectName), file)
      | Some proj \<Rightarrow>
          let questions = partOfProject graph projectName ''researchQuestion'';
              dsets = partOfProject graph projectName ''dataset'';
              hyps = partOfProject graph projectName ''hypothesis'';
              mods = partOfProject graph projectName ''model'';
              finds = partOfProject graph projectName ''finding'';
              methodologyObs =
                filter (\<lambda>obs. str_includes (toLowerCase obs) ''method'' \<or>
                              str_includes (toLowerCase obs) ''approach'' \<or>
                              str_includes (toLowerCase obs) ''design'') (observations proj);
              participantInfo =
                filter (\<lambda>obs. str_includes (toLowerCase obs) ''participant'' \<or>
                              str_includes (toLowerCase obs) ''sample'' \<or>
                              str_includes (toLowerCase obs) ''subject'') (observations proj);
              total = foldl (\<lambda>total dataset. total + length (datasetVariables graph dataset)) 0 dsets
          in (Inr \<lparr>project = proj,
                   researchQuestions = questions,
                   methodology = methodologyObs,
                   participants = participantInfo,
                   dataCollection =
                     \<lparr>datasets = length dsets, totalVariables = total, datasetList = dsets\<rparr>,
                   analysis =
                     \<lparr>hypotheses = length hyps, models = length mods,
                      hypothesisList = hyps, modelsList = mods\<rparr>,
                   findings = finds\<rparr>,
              file))"

text \<open>
  What the loops of \<open>getProjectOverview\<close> run over: the \<open>part_of\<close> relations that link an
  entity of type \<open>dataset\<close> to the project, and the \<open>contains\<close> relations that lead from a
  dataset name to an entity of type \<open>variable\<close>.
\<close>

definition datasetLinks :: "KnowledgeGraph \<Rightarrow> string \<Rightarrow> Relation list" where
  "datasetLinks graph projectName =
     filter (\<lambda>l. relationType l = ''part_of'' \<and> to l = projectName \<and>
                  (\<exists>e \<in> set (entities graph). name e = from l \<and> entityType e = ''dataset''))
       (relations graph)"

definition variableLinks :: "KnowledgeGraph \<Rightarrow> string \<Rightarrow> Relation list" where
  "variableLinks graph datasetName =
     filter (\<lambda>r. relationType r = ''contains'' \<and> from r = datasetName \<and>
                  (\<exists>e \<in> set (entities graph). name e = to r \<and> entityType e = ''variable''))
       (relations graph)"

text \<open>
  The count in the words of the specification, to compare \<open>totalVariables\<close> with: over all
  datasets linked \<open>part_of\<close> to the project, each dataset taken once however many relations
  link it, the number of \<open>contains\<close> relations from that dataset to an entity of type
  \<open>variable\<close>. A dataset is known by its name.
\<close>

definition linkedDatasets :: "KnowledgeGraph \<Rightarrow> string \<Rightarrow> string list" where
  "linkedDatasets graph projectName = remdups (map from (datasetLinks graph projectName))"

definition countedVariables :: "KnowledgeGraph \<Rightarrow> string \<Rightarrow> nat" where
  "countedVariables graph projectName =
     sum_list (map (\<lambda>d. length (variableLinks graph d)) (linkedDatasets graph projectName))"

subsection \<open>Status and priority (\<^verbatim>\<open>part_000\<close> only)\<close>

fun ensureStatusEntities :: "string list \<Rightarrow> Entity list \<Rightarrow> Entity list" where
  "ensureStatusEntities [] es = es"
| "ensureStatusEntities (statusValue # rest) es =
     (let statusName = ''status:'' @ statusValue in
      ensureStatusEntities rest
        (if \<not> list_ex (\<lambda>e. name e = statusName \<and> entityType e = ''status'') es
         then es @ [\<lparr>name = statusName, entityType = ''status'',
                      observations = [''A '' @ statusValue @ '' status value'']\<rparr>]
         else es))"

fun ensurePriorityEntities :: "string list \<Rightarrow> Entity list \<Rightarrow> Entity list" where
  "ensurePriorityEntities [] es = es"
| "ensurePriorityEntities (priorityValue # rest) es =
     (let priorityName = ''priority:'' @ priorityValue in
      ensurePriorityEntities rest
        (if \<not> list_ex (\<lambda>e. name e = priorityName \<and> entityType e = ''priority'') es
         then es @ [\<lparr>name = priorityName, entityType = ''priority'',
                      observations = [''A '' @ priorityValue @ '' priority value'']\<rparr>]
         else es))"

definition initializeStatusAndPriority :: "graph_file \<Rightarrow> (error + unit) \<times> graph_file" where
  "initializeStatusAndPriority file =
     (let graph = loadGraph file in
      finish file
        (Returns ()
           (graph\<lparr>entities :=
              ensurePriorityEntities VALID_PRIORITY_VALUES
                (ensureStatusEntities VALID_STATUS_VALUES (entities graph))\<rparr>)))"

text \<open>The value is checked before the graph is loaded.\<close>

definition setEntityStatus :: "graph_file \<Rightarrow> string \<Rightarrow> string \<Rightarrow> (error + unit) \<times> graph_file" where
  "setEntityStatus file ename statusValue =
     (if statusValue \<notin> set VALID_STATUS_VALUES then (Inl (InvalidStatusValue statusValue), file)
      else
        let graph = loadGraph file;
            kept = filter (\<lambda>r. \<not> (from r = ename \<and> relationType r = ''has_status''))
                     (relations graph)
        in finish file
             (Returns ()
                (graph\<lparr>relations :=
                   kept @ [\<lparr>from = ename, to = ''status:'' @ statusValue,
                            relationType = ''has_status''\<rparr>]\<rparr>)))"

definition setEntityPriority :: "graph_file \<Rightarrow> string \<Rightarrow> string \<Rightarrow> (error + unit) \<times> graph_file" where
  "setEntityPriority file ename priorityValue =
     (if priorityValue \<notin> set VALID_PRIORITY_VALUES
      then (Inl (InvalidPriorityValue priorityValue), file)
      else
        let graph = loadGraph file;
            kept = filter (\<lambda>r. \<not> (from r = ename \<and> relationType r = ''has_priority''))
                     (relations graph)
        in finish file
             (Returns ()
                (graph\<lparr>relations :=
                   kept @ [\<lparr>from = ename, to = ''priority:'' @ priorityValue,
                            relationType = ''has_priority''\<rparr>]\<rparr>)))"

subsection \<open>Referential integrity and sequences of mutations\<close>

text \<open>Every relation of the graph starts and ends at the name of an entity of the graph.\<close>

definition referentialIntegrity :: "KnowledgeGraph \<Rightarrow> bool" where
  "referentialIntegrity graph =
     list_all (\<lambda>r. from r \<in> set (map name (entities graph)) \<and>
                   to r \<in> set (map name (entities graph)))
       (relations graph)"

text \<open>The mutating methods of the manager as requests, and the file a request leaves.\<close>

datatype operation =
    CreateEntities "Entity list"
  | CreateRelations "Relation list"
  | AddObservations "ObservationInput list"
  | DeleteEntities "string list"
  | DeleteObservations "ObservationDeletion list"
  | DeleteRelations "Relation list"
  | InitializeStatusAndPriority
  | SetEntityStatus string string
  | SetEntityPriority string string

fun perform :: "tables \<Rightarrow> graph_file \<Rightarrow> operation \<Rightarrow> graph_file" where
  "perform T file (CreateEntities batch) = snd (createEntities T file batch)"
| "perform T file (CreateRelations batch) = snd (createRelations T file batch)"
| "perform T file (AddObservations batch) = snd (addObservations file batch)"
| "perform T file (DeleteEntities names) = snd (deleteEntities file names)"
| "perform T file (DeleteObservations deletions) = snd (deleteObservations file deletions)"
| "perform T file (DeleteRelations batch) = snd (deleteRelations file batch)"
| "perform T file InitializeStatusAndPriority = snd (initializeStatusAndPriority file)"
| "perform T file (SetEntityStatus ename statusValue) = snd (setEntityStatus file ename statusValue)"
| "perform T file (SetEntityPriority ename priorityValue) =
     snd (setEntityPriority file ename priorityValue)"

fun performAll :: "tables \<Rightarrow> graph_file \<Rightarrow> operation list \<Rightarrow> graph_file" where
  "performAll T file [] = file"
| "performAll T file (operation # rest) = performAll T (perform T file operation) rest"

text \<open>
  The status and priority setters push their edge without looking at the entities. A request
  is \<open>anchored\<close> in a file when it is none of the two, or its value is refused, or both ends of
  the edge it pushes are names of entities of the file.
\<close>

fun anchored :: "graph_file \<Rightarrow> operation \<Rightarrow> bool" where
  "anchored file (SetEntityStatus ename statusValue) =
     (statusValue \<notin> set VALID_STATUS_VALUES \<or>
      (ename \<in> set (map name (entities (loadGraph file))) \<and>
       ''status:'' @ statusValue \<in> set (map name (entities (loadGraph file)))))"
| "anchored file (SetEntityPriority ename priorityValue) =
     (priorityValue \<notin> set VALID_PRIORITY_VALUES \<or>
      (ename \<in> set (map name (entities (loadGraph file))) \<and>
       ''priority:'' @ priorityValue \<in> set (map name (entities (loadGraph file)))))"
| "anchored file operation = True"

fun anchoredAll :: "tables \<Rightarrow> graph_file \<Rightarrow> operation list \<Rightarrow> bool" where
  "anchoredAll T file [] = True"
| "anchoredAll T file (operation # rest) =
     (anchored file operation \<and> anchoredAll T (perform T file operation) rest)"

subsection \<open>The commit of a session (\<^verbatim>\<open>endsession\<close>, stage \<^verbatim>\<open>assembly\<close>, of \<^verbatim>\<open>index.ts\<close>)\<close>








































section \<open>Properties\<close>

subsection \<open>Shared facts\<close>

lemma loadGraph_saveGraph [simp]: "loadGraph (saveGraph g) = g"
  by (simp add: loadGraph_def saveGraph_def)

lemma loadGraph_Some [simp]: "loadGraph (Some g) = g"
  by (simp add: loadGraph_def)

subsection \<open>Facts for C1: createRelations checks\<close>

lemma checkRelations_None_iff:
  "checkRelations T N batch = None \<longleftrightarrow>
     (\<forall>r \<in> set batch. from r \<in> N \<and> to r \<in> N \<and> validateRelationType T (relationType r))"
  by (induction batch) auto

lemma checkRelations_missing:
  assumes "\<exists>r \<in> set batch. from r \<notin> N \<or> to r \<notin> N"
  shows "if \<forall>r \<in> set (takeWhile (\<lambda>r. from r \<in> N \<and> to r \<in> N) batch).
               validateRelationType T (relationType r)
         then \<exists>n. n \<notin> N \<and> (\<exists>r \<in> set batch. n = from r \<or> n = to r) \<and>
                  checkRelations T N batch = Some (EntityNotFound n)
         else \<exists>r \<in> set (takeWhile (\<lambda>r. from r \<in> N \<and> to r \<in> N) batch).
                  \<not> validateRelationType T (relationType r) \<and>
                  checkRelations T N batch = Some (InvalidRelationType (relationType r))"
  using assms
proof (induction batch)
  case Nil
  then show ?case by simp
next
  case (Cons r rs)
  show ?case
  proof (cases "from r \<in> N \<and> to r \<in> N")
    case False
    then show ?thesis by auto
  next
    case ok: True
    with Cons.prems have ex: "\<exists>r \<in> set rs. from r \<notin> N \<or> to r \<notin> N" by auto
    show ?thesis
    proof (cases "validateRelationType T (relationType r)")
      case True
      with ok Cons.IH [OF ex] show ?thesis by (auto split: if_splits)
    next
      case False
      with ok show ?thesis by auto
    qed
  qed
qed

subsection \<open>C1: a relation batch that names a missing entity\<close>

text \<open>
  C1 (as amended). When some relation of the batch names a \<open>from\<close> or \<open>to\<close> that is
  not an entity of the loaded graph, \<open>createRelations\<close> throws and the file is exactly what
  it was, so no relation of the batch is added. The checks run relation by relation, so the
  error is \<open>EntityNotFound\<close> naming a missing endpoint of the batch when every relation in
  front of the first one with a missing endpoint has a valid relation type; otherwise it is
  the \<open>InvalidRelationType\<close> of such an earlier relation.
\<close>

theorem createRelations_missing_endpoint:
  assumes "\<exists>r \<in> set batch. from r \<notin> set (map name (entities (loadGraph file))) \<or>
                           to r \<notin> set (map name (entities (loadGraph file)))"
  shows "snd (createRelations T file batch) = file \<and>
         (if \<forall>r \<in> set (takeWhile (\<lambda>r. from r \<in> set (map name (entities (loadGraph file))) \<and>
                                      to r \<in> set (map name (entities (loadGraph file)))) batch).
               validateRelationType T (relationType r)
          then \<exists>n. n \<notin> set (map name (entities (loadGraph file))) \<and>
                   (\<exists>r \<in> set batch. n = from r \<or> n = to r) \<and>
                   fst (createRelations T file batch) = Inl (EntityNotFound n)
          else \<exists>r \<in> set batch. from r \<in> set (map name (entities (loadGraph file))) \<and>
                   to r \<in> set (map name (entities (loadGraph file))) \<and>
                   \<not> validateRelationType T (relationType r) \<and>
                   fst (createRelations T file batch) = Inl (InvalidRelationType (relationType r)))"
proof -
  let ?N = "set (map name (entities (loadGraph file)))"
  let ?pre = "takeWhile (\<lambda>r. from r \<in> ?N \<and> to r \<in> ?N) batch"
  note m = checkRelations_missing [OF assms, of T]
  show ?thesis
  proof (cases "\<forall>r \<in> set ?pre. validateRelationType T (relationType r)")
    case True
    with m obtain n where n: "n \<notin> ?N" "\<exists>r \<in> set batch. n = from r \<or> n = to r"
      "checkRelations T ?N batch = Some (EntityNotFound n)" by (auto simp del: set_map)
    from n(3) have "createRelations T file batch = (Inl (EntityNotFound n), file)"
      by (simp add: createRelations_def createRelations_body_def)
    with True n(1,2) show ?thesis by auto
  next
    case False
    with m obtain r where r: "r \<in> set ?pre" "\<not> validateRelationType T (relationType r)"
      "checkRelations T ?N batch = Some (InvalidRelationType (relationType r))"
      by (auto simp del: set_map)
    from r(1) have in_batch: "r \<in> set batch" and ok: "from r \<in> ?N \<and> to r \<in> ?N"
      by (auto dest: set_takeWhileD)
    from r(3) have "createRelations T file batch = (Inl (InvalidRelationType (relationType r)), file)"
      by (simp add: createRelations_def createRelations_body_def)
    with False in_batch ok r(2) show ?thesis by auto
  qed
qed

text \<open>The spec's own example: entity \<open>A\<close> exists, \<open>Ghost\<close> does not.\<close>

theorem createRelations_missing_endpoint_witness:
  "createRelations index_ts
     (Some \<lparr>entities = [\<lparr>name = ''A'', entityType = ''project'', observations = []\<rparr>],
            relations = []\<rparr>)
     [\<lparr>from = ''A'', to = ''Ghost'', relationType = ''contains''\<rparr>]
   = (Inl (EntityNotFound ''Ghost''),
      Some \<lparr>entities = [\<lparr>name = ''A'', entityType = ''project'', observations = []\<rparr>],
            relations = []\<rparr>)"
proof -
  let ?file = "Some \<lparr>entities = [\<lparr>name = ''A'', entityType = ''project'', observations = []\<rparr>],
            relations = []\<rparr>"
  let ?batch = "[\<lparr>from = ''A'', to = ''Ghost'', relationType = ''contains''\<rparr>]"
  have h: "\<exists>r \<in> set ?batch. from r \<notin> set (map name (entities (loadGraph ?file))) \<or>
                           to r \<notin> set (map name (entities (loadGraph ?file)))"
    by (simp add: loadGraph_def)
  from createRelations_missing_endpoint [OF h, of index_ts]
  show ?thesis
    by (auto simp add: loadGraph_def prod_eq_iff)
qed

text \<open>
  C1 as stated promises \<open>EntityNotFound\<close> for every such batch. Here the batch names the
  missing \<open>Ghost\<close>, and the call fails with the invalid type of the relation in front.
\<close>

theorem createRelations_error_kind_counterexample:
  "''Ghost'' \<notin> set (map name (entities (loadGraph
      (Some \<lparr>entities = [\<lparr>name = ''A'', entityType = ''project'', observations = []\<rparr>],
             relations = []\<rparr>)))) \<and>
   fst (createRelations index_ts
     (Some \<lparr>entities = [\<lparr>name = ''A'', entityType = ''project'', observations = []\<rparr>],
            relations = []\<rparr>)
     [\<lparr>from = ''A'', to = ''A'', relationType = ''relates_to''\<rparr>,
      \<lparr>from = ''A'', to = ''Ghost'', relationType = ''contains''\<rparr>])
   = Inl (InvalidRelationType ''relates_to'')"
  by (simp add: createRelations_def createRelations_body_def loadGraph_def
      validateRelationType_def index_ts_def)

subsection \<open>Facts for C2: the loaded graph\<close>

lemma loadGraph_Some_if_named:
  "n \<in> set (map name (entities (loadGraph file))) \<Longrightarrow> file = Some (loadGraph file)"
  by (cases "file") (simp_all add: loadGraph_def)

subsection \<open>C2: creating an entity whose name exists\<close>

text \<open>
  C2 (as amended). For every graph and every entity \<open>E\<close> whose name is already the name of
  an entity of the graph, \<open>createEntities [E]\<close> leaves the file exactly as it was. When the
  \<open>entityType\<close> of \<open>E\<close> is valid the call returns the empty created-list and no error;
  when it is not, the type check, which runs before the duplicate filter, throws.
\<close>

theorem createEntities_existing_name:
  assumes "name E \<in> set (map name (entities (loadGraph file)))"
  shows "snd (createEntities T file [E]) = file \<and>
         fst (createEntities T file [E]) =
           (if validateEntityType T (entityType E) then Inr []
            else Inl (InvalidEntityType (entityType E)))"
proof -
  from assms have "file = Some (loadGraph file)" by (rule loadGraph_Some_if_named)
  then obtain g where g: "file = Some g" ..
  with assms have "name E \<in> set (map name (entities g))" by (simp add: loadGraph_def)
  with g show ?thesis
    by (simp add: createEntities_def createEntities_body_def loadGraph_def saveGraph_def)
qed

theorem createEntities_existing_name_witness:
  "createEntities index_ts
     (Some \<lparr>entities = [\<lparr>name = ''A'', entityType = ''project'', observations = [''first'']\<rparr>],
            relations = []\<rparr>)
     [\<lparr>name = ''A'', entityType = ''dataset'', observations = [''second'']\<rparr>]
   = (Inr [],
      Some \<lparr>entities = [\<lparr>name = ''A'', entityType = ''project'', observations = [''first'']\<rparr>],
            relations = []\<rparr>)"
proof -
  let ?file = "Some \<lparr>entities = [\<lparr>name = ''A'', entityType = ''project'', observations = [''first'']\<rparr>],
            relations = []\<rparr>"
  let ?E = "\<lparr>name = ''A'', entityType = ''dataset'', observations = [''second'']\<rparr>"
  have h: "name ?E \<in> set (map name (entities (loadGraph ?file)))"
    by (simp add: loadGraph_def)
  from createEntities_existing_name [OF h, of index_ts]
  show ?thesis
    by (simp add: prod_eq_iff validateEntityType_def index_ts_def)
qed

text \<open>
  C2 as stated speaks of every entity whose name exists. A duplicate with an invalid type is
  reported as an error, not dropped silently.
\<close>

theorem createEntities_existing_name_counterexample:
  "name \<lparr>name = ''A'', entityType = ''not_a_type'', observations = []\<rparr>
     \<in> set (map name (entities (loadGraph
         (Some \<lparr>entities = [\<lparr>name = ''A'', entityType = ''project'', observations = []\<rparr>],
                relations = []\<rparr>)))) \<and>
   fst (createEntities index_ts
     (Some \<lparr>entities = [\<lparr>name = ''A'', entityType = ''project'', observations = []\<rparr>],
            relations = []\<rparr>)
     [\<lparr>name = ''A'', entityType = ''not_a_type'', observations = []\<rparr>])
   = Inl (InvalidEntityType ''not_a_type'')"
  by (simp add: createEntities_def createEntities_body_def loadGraph_def
      validateEntityType_def index_ts_def)

subsection \<open>Facts for C3: throws and in-place updates\<close>

lemma finish_error_keeps_file: "fst (finish file out) = Inl e \<Longrightarrow> snd (finish file out) = file"
  by (cases out) simp_all

lemma map_name_updateFirst:
  "(\<And>e. name (f e) = name e) \<Longrightarrow> map name (updateFirst P f es) = map name es"
  by (induction es) simp_all

lemma find_name_None_iff:
  "find (\<lambda>e. name e = n) es = None \<longleftrightarrow> n \<notin> set (map name es)"
  by (auto simp: find_None_iff)

subsection \<open>C3: a validation error persists nothing\<close>

text \<open>
  C3 (as amended). A call of \<open>createEntities\<close>, \<open>createRelations\<close> or
  \<open>addObservations\<close> that throws leaves the file unchanged: \<open>saveGraph\<close> is reached only
  after the whole batch was processed. In \<open>createEntities\<close> and \<open>createRelations\<close> the
  in-memory graph is untouched when the error is thrown. In particular \<open>addObservations\<close>
  with a first target that exists and a second that is absent throws \<open>EntityNotFound\<close> for
  the second and persists nothing.
\<close>

theorem validation_error_persists_nothing:
  "(fst (createEntities T file es) = Inl e1 \<longrightarrow>
      snd (createEntities T file es) = file \<and>
      memory (createEntities_body T (loadGraph file) es) = loadGraph file) \<and>
   (fst (createRelations T file rs) = Inl e2 \<longrightarrow>
      snd (createRelations T file rs) = file \<and>
      memory (createRelations_body T (loadGraph file) rs) = loadGraph file) \<and>
   (fst (addObservations file batch) = Inl e3 \<longrightarrow> snd (addObservations file batch) = file) \<and>
   (entityName o1 \<in> set (map name (entities (loadGraph file))) \<and>
    entityName o2 \<notin> set (map name (entities (loadGraph file))) \<longrightarrow>
      addObservations file [o1, o2] = (Inl (EntityNotFound (entityName o2)), file))"
proof (intro conjI impI)
  assume "fst (createEntities T file es) = Inl e1"
  then show "snd (createEntities T file es) = file"
    unfolding createEntities_def by (rule finish_error_keeps_file)
next
  assume "fst (createEntities T file es) = Inl e1"
  then show "memory (createEntities_body T (loadGraph file) es) = loadGraph file"
    by (simp add: createEntities_def createEntities_body_def split: option.splits)
next
  assume "fst (createRelations T file rs) = Inl e2"
  then show "snd (createRelations T file rs) = file"
    unfolding createRelations_def by (rule finish_error_keeps_file)
next
  assume "fst (createRelations T file rs) = Inl e2"
  then show "memory (createRelations_body T (loadGraph file) rs) = loadGraph file"
    by (simp add: createRelations_def createRelations_body_def split: option.splits)
next
  assume "fst (addObservations file batch) = Inl e3"
  then show "snd (addObservations file batch) = file"
    unfolding addObservations_def by (rule finish_error_keeps_file)
next
  assume h: "entityName o1 \<in> set (map name (entities (loadGraph file))) \<and>
             entityName o2 \<notin> set (map name (entities (loadGraph file)))"
  let ?g = "loadGraph file"
  from h obtain entity where found: "find (\<lambda>e. name e = entityName o1) (entities ?g) = Some entity"
    using find_name_None_iff [of "entityName o1" "entities ?g"]
    by (cases "find (\<lambda>e. name e = entityName o1) (entities ?g)") auto
  have absent: "find (\<lambda>e. name e = entityName o2) (updateFirst P (\<lambda>e. e\<lparr>observations := observations e @ new\<rparr>) (entities ?g)) = None" for P new
    using h by (simp add: find_name_None_iff map_name_updateFirst)
  show "addObservations file [o1, o2] = (Inl (EntityNotFound (entityName o2)), file)"
    by (simp add: addObservations_def found absent Let_def)
qed

theorem validation_error_persists_nothing_witness:
  "snd (createEntities index_ts (Some \<lparr>entities = [\<lparr>name = ''A'', entityType = ''project'', observations = []\<rparr>],
            relations = []\<rparr>)
          [\<lparr>name = ''B'', entityType = ''not_a_type'', observations = []\<rparr>]) = (Some \<lparr>entities = [\<lparr>name = ''A'', entityType = ''project'', observations = []\<rparr>],
            relations = []\<rparr>) \<and>
   snd (createRelations index_ts (Some \<lparr>entities = [\<lparr>name = ''A'', entityType = ''project'', observations = []\<rparr>],
            relations = []\<rparr>)
          [\<lparr>from = ''A'', to = ''Ghost'', relationType = ''contains''\<rparr>]) = (Some \<lparr>entities = [\<lparr>name = ''A'', entityType = ''project'', observations = []\<rparr>],
            relations = []\<rparr>) \<and>
   snd (addObservations (Some \<lparr>entities = [\<lparr>name = ''A'', entityType = ''project'', observations = []\<rparr>],
            relations = []\<rparr>) [\<lparr>entityName = ''Ghost'', contents = [''y'']\<rparr>]) = (Some \<lparr>entities = [\<lparr>name = ''A'', entityType = ''project'', observations = []\<rparr>],
            relations = []\<rparr>) \<and>
   addObservations (Some \<lparr>entities = [\<lparr>name = ''A'', entityType = ''project'', observations = []\<rparr>],
            relations = []\<rparr>)
     [\<lparr>entityName = ''A'', contents = [''x'']\<rparr>, \<lparr>entityName = ''Ghost'', contents = [''y'']\<rparr>]
   = (Inl (EntityNotFound ''Ghost''), (Some \<lparr>entities = [\<lparr>name = ''A'', entityType = ''project'', observations = []\<rparr>],
            relations = []\<rparr>))"
proof -
  let ?file = "(Some \<lparr>entities = [\<lparr>name = ''A'', entityType = ''project'', observations = []\<rparr>],
            relations = []\<rparr>)"
  let ?es = "[\<lparr>name = ''B'', entityType = ''not_a_type'', observations = []\<rparr>]"
  let ?rs = "[\<lparr>from = ''A'', to = ''Ghost'', relationType = ''contains''\<rparr>]"
  let ?o1 = "\<lparr>entityName = ''A'', contents = [''x'']\<rparr>"
  let ?o2 = "\<lparr>entityName = ''Ghost'', contents = [''y'']\<rparr>"
  have h1: "fst (createEntities index_ts ?file ?es) = Inl (InvalidEntityType ''not_a_type'')"
    by (simp add: createEntities_def createEntities_body_def loadGraph_def
        validateEntityType_def index_ts_def)
  have h2: "fst (createRelations index_ts ?file ?rs) = Inl (EntityNotFound ''Ghost'')"
    by (simp add: createRelations_def createRelations_body_def loadGraph_def)
  have h3: "fst (addObservations ?file [?o2]) = Inl (EntityNotFound ''Ghost'')"
    by (simp add: addObservations_def loadGraph_def)
  have h4: "entityName ?o1 \<in> set (map name (entities (loadGraph ?file))) \<and>
            entityName ?o2 \<notin> set (map name (entities (loadGraph ?file)))"
    by (simp add: loadGraph_def)
  from validation_error_persists_nothing
         [of index_ts ?file ?es "InvalidEntityType ''not_a_type''" ?rs "EntityNotFound ''Ghost''"
             "[?o2]" "EntityNotFound ''Ghost''" ?o1 ?o2] h1 h2 h3 h4
  show ?thesis by simp
qed

text \<open>
  C3 as stated gives as the reason that validation comes before any mutation of the in-memory
  graph. \<open>addObservations\<close> validates target by target: when the second target is found
  missing, the observations of the first are already pushed onto the in-memory entity. The
  error is thrown with a mutated in-memory graph, which is then dropped.
\<close>

theorem addObservations_mutates_before_failing_counterexample:
  "memory (addObservations_loop (loadGraph (Some \<lparr>entities = [\<lparr>name = ''A'', entityType = ''project'', observations = []\<rparr>],
            relations = []\<rparr>))
     [\<lparr>entityName = ''A'', contents = [''x'']\<rparr>, \<lparr>entityName = ''Ghost'', contents = [''y'']\<rparr>] [])
   = \<lparr>entities = [\<lparr>name = ''A'', entityType = ''project'', observations = [''x'']\<rparr>],
      relations = []\<rparr> \<and>
   memory (addObservations_loop (loadGraph (Some \<lparr>entities = [\<lparr>name = ''A'', entityType = ''project'', observations = []\<rparr>],
            relations = []\<rparr>))
     [\<lparr>entityName = ''A'', contents = [''x'']\<rparr>, \<lparr>entityName = ''Ghost'', contents = [''y'']\<rparr>] [])
   \<noteq> loadGraph (Some \<lparr>entities = [\<lparr>name = ''A'', entityType = ''project'', observations = []\<rparr>],
            relations = []\<rparr>) \<and>
   fst (addObservations (Some \<lparr>entities = [\<lparr>name = ''A'', entityType = ''project'', observations = []\<rparr>],
            relations = []\<rparr>)
     [\<lparr>entityName = ''A'', contents = [''x'']\<rparr>, \<lparr>entityName = ''Ghost'', contents = [''y'']\<rparr>])
   = Inl (EntityNotFound ''Ghost'')"
  by (simp add: addObservations_def loadGraph_def)

subsection \<open>Facts for C4: single-element batches\<close>

lemma find_updateFirst:
  "(\<And>x. P (f x) = P x) \<Longrightarrow> find P (updateFirst P f es) = map_option f (find P es)"
  by (induction es) simp_all

lemma createRelations_single:
  assumes "from r \<in> set (map name (entities (loadGraph file)))"
    and "to r \<in> set (map name (entities (loadGraph file)))"
    and "validateRelationType T (relationType r)"
  shows "createRelations T file [r] =
          (if relationKey r \<in> set (map relationKey (relations (loadGraph file)))
           then (Inr [], Some (loadGraph file))
           else (Inr [r], Some ((loadGraph file)\<lparr>relations := relations (loadGraph file) @ [r]\<rparr>)))"
  using assms
  by (simp add: createRelations_def createRelations_body_def saveGraph_def Let_def del: set_map)

lemma addObservations_single:
  assumes "find (\<lambda>e. name e = n) (entities (loadGraph file)) = Some e"
  shows "addObservations file [\<lparr>entityName = n, contents = [c]\<rparr>] =
          (Inr [\<lparr>resultEntityName = n,
                 addedObservations = (if c \<in> set (observations e) then [] else [c])\<rparr>],
           Some ((loadGraph file)\<lparr>entities :=
             updateFirst (\<lambda>e. name e = n)
               (\<lambda>e'. e'\<lparr>observations := observations e' @
                          (if c \<in> set (observations e) then [] else [c])\<rparr>)
               (entities (loadGraph file))\<rparr>))"
  using assms by (simp add: addObservations_def saveGraph_def Let_def)

lemma count_list_one: "x \<in> set xs \<Longrightarrow> count_list xs x \<le> 1 \<Longrightarrow> count_list xs x = 1"
  using count_list_0_iff [of xs x] by linarith

subsection \<open>C4: duplicates are suppressed\<close>

text \<open>
  C4 (as amended). Let the endpoints of a relation be entities of the graph and its type be
  valid, let the graph hold the relation at most once, and let no other stored relation have
  the same text \<open>from:to:relationType\<close>. Then after two calls of \<open>createRelations\<close> with
  that relation the stored graph holds it exactly once, and the second call creates nothing.
  Let an entity of the given name exist and hold a content string at most once. Then after
  two calls of \<open>addObservations\<close> with that string for that name the entity holds the
  string exactly once, and the second call adds nothing.
\<close>

theorem duplicate_suppression:
  "(from r \<in> set (map name (entities (loadGraph file))) \<and>
    to r \<in> set (map name (entities (loadGraph file))) \<and>
    validateRelationType T (relationType r) \<and>
    count_list (relations (loadGraph file)) r \<le> 1 \<and>
    (\<forall>r' \<in> set (relations (loadGraph file)). relationKey r' = relationKey r \<longrightarrow> r' = r) \<longrightarrow>
      count_list
        (relations (loadGraph (snd (createRelations T (snd (createRelations T file [r])) [r])))) r = 1 \<and>
      fst (createRelations T (snd (createRelations T file [r])) [r]) = Inr []) \<and>
   (find (\<lambda>e. name e = n) (entities (loadGraph file)) = Some e \<and>
    count_list (observations e) c \<le> 1 \<longrightarrow>
      (\<exists>e'. find (\<lambda>e. name e = n)
              (entities (loadGraph (snd (addObservations
                 (snd (addObservations file [\<lparr>entityName = n, contents = [c]\<rparr>]))
                 [\<lparr>entityName = n, contents = [c]\<rparr>])))) = Some e' \<and>
            count_list (observations e') c = 1) \<and>
      fst (addObservations (snd (addObservations file [\<lparr>entityName = n, contents = [c]\<rparr>]))
             [\<lparr>entityName = n, contents = [c]\<rparr>])
        = Inr [\<lparr>resultEntityName = n, addedObservations = []\<rparr>])"
proof (intro conjI impI)
  let ?g = "loadGraph file"
  assume h: "from r \<in> set (map name (entities ?g)) \<and> to r \<in> set (map name (entities ?g)) \<and>
    validateRelationType T (relationType r) \<and> count_list (relations ?g) r \<le> 1 \<and>
    (\<forall>r' \<in> set (relations ?g). relationKey r' = relationKey r \<longrightarrow> r' = r)"
  let ?f1 = "snd (createRelations T file [r])"
  have both: "count_list (relations (loadGraph (snd (createRelations T ?f1 [r])))) r = 1 \<and>
              fst (createRelations T ?f1 [r]) = Inr []"
  proof (cases "r \<in> set (relations ?g)")
    case True
    then have key: "relationKey r \<in> set (map relationKey (relations ?g))" by auto
    with h have f1: "?f1 = Some ?g" by (simp add: createRelations_single del: set_map)
    from h key have "createRelations T (Some ?g) [r] = (Inr [], Some ?g)"
      by (simp add: createRelations_single del: set_map)
    with f1 True h show ?thesis by (simp add: count_list_one)
  next
    case False
    with h have key: "relationKey r \<notin> set (map relationKey (relations ?g))" by auto
    let ?g1 = "?g\<lparr>relations := relations ?g @ [r]\<rparr>"
    from h key have f1: "?f1 = Some ?g1" by (simp add: createRelations_single del: set_map)
    from h have "createRelations T (Some ?g1) [r] = (Inr [], Some ?g1)"
      by (simp add: createRelations_single)
    with f1 False show ?thesis by (simp add: count_list_0_iff)
  qed
  from both show "count_list (relations (loadGraph (snd (createRelations T ?f1 [r])))) r = 1" ..
  from both show "fst (createRelations T ?f1 [r]) = Inr []" ..
next
  let ?g = "loadGraph file"
  let ?ob = "\<lparr>entityName = n, contents = [c]\<rparr>"
  assume h: "find (\<lambda>e. name e = n) (entities ?g) = Some e \<and> count_list (observations e) c \<le> 1"
  let ?new = "if c \<in> set (observations e) then [] else [c]"
  let ?e1 = "e\<lparr>observations := observations e @ ?new\<rparr>"
  let ?g1 = "?g\<lparr>entities := updateFirst (\<lambda>e. name e = n)
               (\<lambda>e'. e'\<lparr>observations := observations e' @ ?new\<rparr>) (entities ?g)\<rparr>"
  from h have f1: "snd (addObservations file [?ob]) = Some ?g1"
    by (simp add: addObservations_single)
  from h have found1: "find (\<lambda>e. name e = n) (entities (loadGraph (Some ?g1))) = Some ?e1"
    by (simp add: find_updateFirst)
  have mem: "c \<in> set (observations ?e1)" by simp
  have second: "addObservations (Some ?g1) [?ob] =
      (Inr [\<lparr>resultEntityName = n, addedObservations = []\<rparr>],
       Some ((loadGraph (Some ?g1))\<lparr>entities := updateFirst (\<lambda>e. name e = n)
               (\<lambda>e'. e'\<lparr>observations := observations e' @ []\<rparr>)
               (entities (loadGraph (Some ?g1)))\<rparr>))"
    using addObservations_single [OF found1, of c] mem by (simp only: if_True)
  have found2: "find (\<lambda>e. name e = n)
      (entities (loadGraph (snd (addObservations (Some ?g1) [?ob])))) = Some ?e1"
    using found1 by (simp add: second find_updateFirst)
  have "count_list (observations ?e1) c = 1"
    using h by (auto simp: count_list_one count_list_0_iff)
  with found2 f1 show "\<exists>e'. find (\<lambda>e. name e = n)
              (entities (loadGraph (snd (addObservations
                 (snd (addObservations file [?ob])) [?ob])))) = Some e' \<and>
            count_list (observations e') c = 1"
    by simp
  from second f1 show "fst (addObservations (snd (addObservations file [?ob])) [?ob])
        = Inr [\<lparr>resultEntityName = n, addedObservations = []\<rparr>]"
    by simp
qed

theorem duplicate_suppression_witness:
  "count_list
     (relations (loadGraph (snd (createRelations index_ts
        (snd (createRelations index_ts (Some \<lparr>entities = [\<lparr>name = ''A'', entityType = ''dataset'', observations = [''raw'']\<rparr>,
                       \<lparr>name = ''B'', entityType = ''variable'', observations = []\<rparr>],
            relations = []\<rparr>)
           [\<lparr>from = ''A'', to = ''B'', relationType = ''contains''\<rparr>]))
        [\<lparr>from = ''A'', to = ''B'', relationType = ''contains''\<rparr>]))))
     \<lparr>from = ''A'', to = ''B'', relationType = ''contains''\<rparr> = 1 \<and>
   fst (createRelations index_ts
        (snd (createRelations index_ts (Some \<lparr>entities = [\<lparr>name = ''A'', entityType = ''dataset'', observations = [''raw'']\<rparr>,
                       \<lparr>name = ''B'', entityType = ''variable'', observations = []\<rparr>],
            relations = []\<rparr>)
           [\<lparr>from = ''A'', to = ''B'', relationType = ''contains''\<rparr>]))
        [\<lparr>from = ''A'', to = ''B'', relationType = ''contains''\<rparr>]) = Inr [] \<and>
   fst (addObservations
        (snd (addObservations (Some \<lparr>entities = [\<lparr>name = ''A'', entityType = ''dataset'', observations = [''raw'']\<rparr>,
                       \<lparr>name = ''B'', entityType = ''variable'', observations = []\<rparr>],
            relations = []\<rparr>)
           [\<lparr>entityName = ''A'', contents = [''cleaned'']\<rparr>]))
        [\<lparr>entityName = ''A'', contents = [''cleaned'']\<rparr>])
   = Inr [\<lparr>resultEntityName = ''A'', addedObservations = []\<rparr>]"
proof -
  let ?file = "(Some \<lparr>entities = [\<lparr>name = ''A'', entityType = ''dataset'', observations = [''raw'']\<rparr>,
                       \<lparr>name = ''B'', entityType = ''variable'', observations = []\<rparr>],
            relations = []\<rparr>)"
  let ?r = "\<lparr>from = ''A'', to = ''B'', relationType = ''contains''\<rparr>"
  let ?e = "\<lparr>name = ''A'', entityType = ''dataset'', observations = [''raw'']\<rparr>"
  have h1: "from ?r \<in> set (map name (entities (loadGraph ?file))) \<and>
    to ?r \<in> set (map name (entities (loadGraph ?file))) \<and>
    validateRelationType index_ts (relationType ?r) \<and>
    count_list (relations (loadGraph ?file)) ?r \<le> 1 \<and>
    (\<forall>r' \<in> set (relations (loadGraph ?file)). relationKey r' = relationKey ?r \<longrightarrow> r' = ?r)"
    by (simp add: validateRelationType_def index_ts_def)
  have h2: "find (\<lambda>e. name e = ''A'') (entities (loadGraph ?file)) = Some ?e \<and>
    count_list (observations ?e) ''cleaned'' \<le> 1"
    by simp
  from duplicate_suppression [of ?r ?file index_ts "''A''" ?e "''cleaned''"] h1 h2
  show ?thesis by blast
qed

text \<open>
  C4 as stated holds of every graph. One batch that holds a triple twice stores it twice, since
  the duplicate filter looks at the stored relations only; two further calls with the triple
  then leave the two copies. The graph below is built from the missing file by the
  manager's own calls, all of which succeed.
\<close>

theorem duplicate_suppression_counterexample:
  "count_list
     (relations (loadGraph
        (performAll index_ts None
           [CreateEntities [\<lparr>name = ''A'', entityType = ''dataset'', observations = []\<rparr>,
                            \<lparr>name = ''B'', entityType = ''variable'', observations = []\<rparr>],
            CreateRelations [\<lparr>from = ''A'', to = ''B'', relationType = ''contains''\<rparr>,
                             \<lparr>from = ''A'', to = ''B'', relationType = ''contains''\<rparr>],
            CreateRelations [\<lparr>from = ''A'', to = ''B'', relationType = ''contains''\<rparr>],
            CreateRelations [\<lparr>from = ''A'', to = ''B'', relationType = ''contains''\<rparr>]])))
     \<lparr>from = ''A'', to = ''B'', relationType = ''contains''\<rparr> = 2 \<and>
   fst (createRelations index_ts
        (performAll index_ts None
           [CreateEntities [\<lparr>name = ''A'', entityType = ''dataset'', observations = []\<rparr>,
                            \<lparr>name = ''B'', entityType = ''variable'', observations = []\<rparr>],
            CreateRelations [\<lparr>from = ''A'', to = ''B'', relationType = ''contains''\<rparr>,
                             \<lparr>from = ''A'', to = ''B'', relationType = ''contains''\<rparr>],
            CreateRelations [\<lparr>from = ''A'', to = ''B'', relationType = ''contains''\<rparr>]])
        [\<lparr>from = ''A'', to = ''B'', relationType = ''contains''\<rparr>]) = Inr []"
  by code_simp

text \<open>
  The duplicate filter compares the texts \<open>from:to:relationType\<close>, and names may hold a
  colon. A relation from \<open>a\<close> to \<open>b:c\<close> is taken for a duplicate of a stored relation from
  \<open>a:b\<close> to \<open>c\<close>: the call succeeds, creates nothing, and the relation is not stored.
\<close>

lemma relationKey_collision:
  "createRelations index_ts
     (Some \<lparr>entities = [\<lparr>name = ''a'', entityType = ''dataset'', observations = []\<rparr>,
                        \<lparr>name = ''b:c'', entityType = ''variable'', observations = []\<rparr>,
                        \<lparr>name = ''a:b'', entityType = ''dataset'', observations = []\<rparr>,
                        \<lparr>name = ''c'', entityType = ''variable'', observations = []\<rparr>],
            relations = [\<lparr>from = ''a:b'', to = ''c'', relationType = ''contains''\<rparr>]\<rparr>)
     [\<lparr>from = ''a'', to = ''b:c'', relationType = ''contains''\<rparr>]
   = (Inr [],
      Some \<lparr>entities = [\<lparr>name = ''a'', entityType = ''dataset'', observations = []\<rparr>,
                        \<lparr>name = ''b:c'', entityType = ''variable'', observations = []\<rparr>,
                        \<lparr>name = ''a:b'', entityType = ''dataset'', observations = []\<rparr>,
                        \<lparr>name = ''c'', entityType = ''variable'', observations = []\<rparr>],
            relations = [\<lparr>from = ''a:b'', to = ''c'', relationType = ''contains''\<rparr>]\<rparr>)"
  by code_simp

subsection \<open>C5: deleting entities cascades to their relations\<close>




subsection \<open>Facts for C6: matching and name sets\<close>

lemma str_includes_iff_sublist: "str_includes s t \<longleftrightarrow> sublist t s"
  by (induction s) (simp_all add: sublist_Cons_right)

lemma matchesTerm_iff:
  "matchesTerm e t \<longleftrightarrow>
     sublist t (toLowerCase (name e)) \<or> sublist t (toLowerCase (entityType e)) \<or>
     (\<exists>ob \<in> set (observations e). sublist t (toLowerCase ob))"
  by (auto simp: matchesTerm_def str_includes_iff_sublist list_ex_iff)

lemma matchesAllTerms_iff:
  "list_all (matchesTerm e) (split_whitespace [] (toLowerCase query)) \<longleftrightarrow> everyTokenOccurs query e"
  by (simp add: list_all_iff everyTokenOccurs_def matchesTerm_iff)

lemma filter_by_names_of_filter:
  assumes "distinct (map name es)"
  shows "filter (\<lambda>e. name e \<in> set (map name (filter P es))) es = filter P es"
proof (rule filter_cong [OF refl])
  fix e assume e: "e \<in> set es"
  from assms have inj: "inj_on name (set es)" by (simp add: distinct_map)
  show "(name e \<in> set (map name (filter P es))) = P e"
  proof
    assume "name e \<in> set (map name (filter P es))"
    then obtain e' where e': "e' \<in> set es" "P e'" "name e' = name e" by auto
    with inj e have "e' = e" by (auto dest: inj_onD)
    with e'(2) show "P e" by simp
  next
    assume "P e"
    with e show "name e \<in> set (map name (filter P es))" by auto
  qed
qed

lemma names_of_filter_by_names:
  "set (map name (filter (\<lambda>e. name e \<in> set (map name (filter P es))) es)) =
   set (map name (filter P es))"
  by auto

subsection \<open>C6: what a search returns\<close>

text \<open>
  C6 (as amended). Let the entities of the graph have pairwise different names. Then
  \<open>searchNodes query\<close> returns, in their order, exactly the entities for which every token
  of the query occurs case-insensitively in the name, or in the type, or in at least one
  observation; an entity for which only some tokens match is not returned. With or without
  that condition every such entity is returned, and the relations returned are exactly the
  relations of the graph whose both endpoints are names of returned entities.
\<close>

theorem searchNodes_induced_subgraph:
  "(distinct (map name (entities (loadGraph file))) \<longrightarrow>
      entities (searchNodes file query) =
        filter (everyTokenOccurs query) (entities (loadGraph file))) \<and>
   set (filter (everyTokenOccurs query) (entities (loadGraph file)))
     \<subseteq> set (entities (searchNodes file query)) \<and>
   relations (searchNodes file query) =
     filter (\<lambda>r. from r \<in> set (map name (entities (searchNodes file query))) \<and>
                  to r \<in> set (map name (entities (searchNodes file query))))
       (relations (loadGraph file))"
proof (intro conjI impI)
  let ?es = "entities (loadGraph file)"
  let ?P = "\<lambda>entity. list_all (matchesTerm entity) (split_whitespace [] (toLowerCase query))"
  have P: "?P = everyTokenOccurs query"
    by (rule ext) (rule matchesAllTerms_iff)
  have ents: "entities (searchNodes file query) =
              filter (\<lambda>e. name e \<in> set (map name (filter ?P ?es))) ?es"
    by (simp add: searchNodes_def Let_def del: set_map)
  {
    assume "distinct (map name ?es)"
    then show "entities (searchNodes file query) = filter (everyTokenOccurs query) ?es"
      unfolding ents P by (rule filter_by_names_of_filter)
  }
  show "set (filter (everyTokenOccurs query) ?es) \<subseteq> set (entities (searchNodes file query))"
    unfolding ents P by auto
  have "relations (searchNodes file query) =
     filter (\<lambda>r. from r \<in> set (map name (filter ?P ?es)) \<and>
                  to r \<in> set (map name (filter ?P ?es))) (relations (loadGraph file))"
    by (simp add: searchNodes_def Let_def del: set_map)
  then show "relations (searchNodes file query) =
     filter (\<lambda>r. from r \<in> set (map name (entities (searchNodes file query))) \<and>
                  to r \<in> set (map name (entities (searchNodes file query))))
       (relations (loadGraph file))"
    unfolding ents names_of_filter_by_names .
qed

text \<open>
  The spec's example. Both tokens of \<open>income regression\<close> occur in the name of the test; the
  dataset matches \<open>income\<close> only and is left out, and so is the relation that ends at it.
\<close>

theorem searchNodes_induced_subgraph_witness:
  "entities (searchNodes
      (Some \<lparr>entities =
             [\<lparr>name = ''Age_Income_Regression'', entityType = ''statisticalTest'',
               observations = [''tests income vs age'']\<rparr>,
              \<lparr>name = ''Income_Table'', entityType = ''dataset'', observations = [''raw'']\<rparr>],
            relations =
             [\<lparr>from = ''Age_Income_Regression'', to = ''Income_Table'',
               relationType = ''analyzes''\<rparr>,
              \<lparr>from = ''Age_Income_Regression'', to = ''Age_Income_Regression'',
               relationType = ''compares''\<rparr>]\<rparr>)
      ''income regression'')
   = [\<lparr>name = ''Age_Income_Regression'', entityType = ''statisticalTest'',
        observations = [''tests income vs age'']\<rparr>] \<and>
   relations (searchNodes
      (Some \<lparr>entities =
             [\<lparr>name = ''Age_Income_Regression'', entityType = ''statisticalTest'',
               observations = [''tests income vs age'']\<rparr>,
              \<lparr>name = ''Income_Table'', entityType = ''dataset'', observations = [''raw'']\<rparr>],
            relations =
             [\<lparr>from = ''Age_Income_Regression'', to = ''Income_Table'',
               relationType = ''analyzes''\<rparr>,
              \<lparr>from = ''Age_Income_Regression'', to = ''Age_Income_Regression'',
               relationType = ''compares''\<rparr>]\<rparr>)
      ''income regression'')
   = [\<lparr>from = ''Age_Income_Regression'', to = ''Age_Income_Regression'',
       relationType = ''compares''\<rparr>]"
proof -
  let ?file = "(Some \<lparr>entities =
             [\<lparr>name = ''Age_Income_Regression'', entityType = ''statisticalTest'',
               observations = [''tests income vs age'']\<rparr>,
              \<lparr>name = ''Income_Table'', entityType = ''dataset'', observations = [''raw'']\<rparr>],
            relations =
             [\<lparr>from = ''Age_Income_Regression'', to = ''Income_Table'',
               relationType = ''analyzes''\<rparr>,
              \<lparr>from = ''Age_Income_Regression'', to = ''Age_Income_Regression'',
               relationType = ''compares''\<rparr>]\<rparr>)"
  let ?q = "''income regression''"
  have h: "distinct (map name (entities (loadGraph ?file)))"
    by simp
  have m: "filter (everyTokenOccurs ?q) (entities (loadGraph ?file)) =
           [\<lparr>name = ''Age_Income_Regression'', entityType = ''statisticalTest'',
        observations = [''tests income vs age'']\<rparr>]"
    by code_simp
  from searchNodes_induced_subgraph [of ?file ?q] h m
  have e: "entities (searchNodes ?file ?q) =
           [\<lparr>name = ''Age_Income_Regression'', entityType = ''statisticalTest'',
        observations = [''tests income vs age'']\<rparr>]"
    by simp
  from searchNodes_induced_subgraph [of ?file ?q]
  have "relations (searchNodes ?file ?q) =
     filter (\<lambda>r. from r \<in> set (map name (entities (searchNodes ?file ?q))) \<and>
                  to r \<in> set (map name (entities (searchNodes ?file ?q))))
       (relations (loadGraph ?file))"
    by blast
  with e show ?thesis by simp
qed

text \<open>
  C6 as stated holds of every graph. \<open>searchNodes\<close> collects the names of the matching
  entities and returns every entity with such a name. One \<open>createEntities\<close> batch may store
  two entities of one name, since its duplicate filter looks at the stored entities only; the
  search for \<open>income\<close> then also returns the entity in which \<open>income\<close> occurs nowhere.
\<close>

theorem searchNodes_shared_name_counterexample:
  "entities (searchNodes
      (snd (createEntities index_ts None
         [\<lparr>name = ''A'', entityType = ''project'', observations = []\<rparr>,
          \<lparr>name = ''A'', entityType = ''dataset'', observations = [''income'']\<rparr>]))
      ''income'')
   = [\<lparr>name = ''A'', entityType = ''project'', observations = []\<rparr>,
      \<lparr>name = ''A'', entityType = ''dataset'', observations = [''income'']\<rparr>] \<and>
   \<not> everyTokenOccurs ''income'' \<lparr>name = ''A'', entityType = ''project'', observations = []\<rparr>"
  by code_simp

subsection \<open>C7: one status edge per entity\<close>

text \<open>
  C7. \<open>setEntityStatus name value\<close> fails with the invalid-value error and leaves the file as
  it was when \<open>value\<close> is not one of the four status values. Otherwise it succeeds, leaves the
  entities alone, removes every \<open>has_status\<close> relation from \<open>name\<close>, keeps every other
  relation and appends a single \<open>has_status\<close> relation from \<open>name\<close> to \<open>status:value\<close>,
  which is then the only \<open>has_status\<close> relation from \<open>name\<close>. After setting \<open>P1\<close> to
  \<open>active\<close> and then to \<open>completed\<close>, whatever the file was before, exactly one
  \<open>has_status\<close> relation leaves \<open>P1\<close>, and it points to \<open>status:completed\<close>.
\<close>

theorem setEntityStatus_single_edge:
  "(statusValue \<notin> set VALID_STATUS_VALUES \<longrightarrow>
      setEntityStatus file ename statusValue = (Inl (InvalidStatusValue statusValue), file)) \<and>
   (statusValue \<in> set VALID_STATUS_VALUES \<longrightarrow>
      fst (setEntityStatus file ename statusValue) = Inr () \<and>
      entities (loadGraph (snd (setEntityStatus file ename statusValue))) =
        entities (loadGraph file) \<and>
      relations (loadGraph (snd (setEntityStatus file ename statusValue))) =
        filter (\<lambda>r. \<not> (from r = ename \<and> relationType r = ''has_status''))
          (relations (loadGraph file)) @
        [\<lparr>from = ename, to = ''status:'' @ statusValue, relationType = ''has_status''\<rparr>] \<and>
      filter (\<lambda>r. from r = ename \<and> relationType r = ''has_status'')
        (relations (loadGraph (snd (setEntityStatus file ename statusValue)))) =
        [\<lparr>from = ename, to = ''status:'' @ statusValue, relationType = ''has_status''\<rparr>]) \<and>
   filter (\<lambda>r. from r = ''P1'' \<and> relationType r = ''has_status'')
     (relations (loadGraph
        (snd (setEntityStatus (snd (setEntityStatus file ''P1'' ''active'')) ''P1'' ''completed''))))
   = [\<lparr>from = ''P1'', to = ''status:completed'', relationType = ''has_status''\<rparr>]"
proof -
  have none: "filter (\<lambda>r. from r = n \<and> relationType r = ''has_status'')
                (filter (\<lambda>r. \<not> (from r = n \<and> relationType r = ''has_status'')) rs) = []" for n rs
    by (induction rs) auto
  have valid: "''completed'' \<in> set VALID_STATUS_VALUES" "''active'' \<in> set VALID_STATUS_VALUES"
    by (simp_all add: VALID_STATUS_VALUES_def)
  show ?thesis
    using valid by (simp add: setEntityStatus_def Let_def none)
qed

theorem setEntityStatus_single_edge_witness:
  "setEntityStatus None ''P1'' ''done'' = (Inl (InvalidStatusValue ''done''), None) \<and>
   relations (loadGraph (snd (setEntityStatus
      (Some \<lparr>entities = [],
             relations = [\<lparr>from = ''P1'', to = ''status:pending'', relationType = ''has_status''\<rparr>,
                          \<lparr>from = ''P1'', to = ''D'', relationType = ''contains''\<rparr>,
                          \<lparr>from = ''P1'', to = ''status:active'', relationType = ''has_status''\<rparr>]\<rparr>)
      ''P1'' ''completed'')))
   = [\<lparr>from = ''P1'', to = ''D'', relationType = ''contains''\<rparr>,
      \<lparr>from = ''P1'', to = ''status:completed'', relationType = ''has_status''\<rparr>]"
proof -
  let ?file = "Some \<lparr>entities = [],
             relations = [\<lparr>from = ''P1'', to = ''status:pending'', relationType = ''has_status''\<rparr>,
                          \<lparr>from = ''P1'', to = ''D'', relationType = ''contains''\<rparr>,
                          \<lparr>from = ''P1'', to = ''status:active'', relationType = ''has_status''\<rparr>]\<rparr>"
  have h1: "''done'' \<notin> set VALID_STATUS_VALUES" and h2: "''completed'' \<in> set VALID_STATUS_VALUES"
    by (simp_all add: VALID_STATUS_VALUES_def)
  from setEntityStatus_single_edge [of "''done''" None "''P1''"] h1
  have a: "setEntityStatus None ''P1'' ''done'' = (Inl (InvalidStatusValue ''done''), None)"
    by blast
  from setEntityStatus_single_edge [of "''completed''" ?file "''P1''"] h2
  have b: "relations (loadGraph (snd (setEntityStatus ?file ''P1'' ''completed''))) =
        filter (\<lambda>r. \<not> (from r = ''P1'' \<and> relationType r = ''has_status''))
          (relations (loadGraph ?file)) @
        [\<lparr>from = ''P1'', to = ''status:'' @ ''completed'', relationType = ''has_status''\<rparr>]"
    by blast
  from a b show ?thesis by (simp add: loadGraph_def)
qed

subsection \<open>Facts for C8: each mutation and referential integrity\<close>

lemma referentialIntegrity_iff:
  "referentialIntegrity g \<longleftrightarrow>
     (\<forall>r \<in> set (relations g). from r \<in> name ` set (entities g) \<and> to r \<in> name ` set (entities g))"
  by (simp add: referentialIntegrity_def list_all_iff)

lemma addObservations_loop_frame:
  "addObservations_loop g batch res = Returns res' g' \<Longrightarrow>
     map name (entities g') = map name (entities g) \<and> relations g' = relations g"
proof (induction batch arbitrary: g res)
  case Nil
  then show ?case by simp
next
  case (Cons ob batch)
  from Cons.prems obtain entity where
    found: "find (\<lambda>e. name e = entityName ob) (entities g) = Some entity"
    by (cases "find (\<lambda>e. name e = entityName ob) (entities g)") simp_all
  let ?new = "filter (\<lambda>obs. obs \<notin> set (observations entity)) (contents ob)"
  let ?g = "g\<lparr>entities := updateFirst (\<lambda>e. name e = entityName ob)
                  (\<lambda>e. e\<lparr>observations := observations e @ ?new\<rparr>) (entities g)\<rparr>"
  from Cons.prems found
  have "addObservations_loop ?g batch
          (res @ [\<lparr>resultEntityName = entityName ob, addedObservations = ?new\<rparr>]) = Returns res' g'"
    by (simp add: Let_def)
  from Cons.IH [OF this] show ?case by (simp add: map_name_updateFirst)
qed

lemma deleteObservations_loop_frame:
  "\<exists>g'. deleteObservations_loop g batch = Returns () g' \<and>
     map name (entities g') = map name (entities g) \<and> relations g' = relations g"
proof (induction batch arbitrary: g)
  case Nil
  then show ?case by simp
next
  case (Cons d batch)
  from Cons.IH [of "g\<lparr>entities :=
          updateFirst (\<lambda>e. name e = deletionEntityName d)
            (\<lambda>e. e\<lparr>observations :=
               filter (\<lambda>obs. obs \<notin> set (deletionObservations d)) (observations e)\<rparr>)
            (entities g)\<rparr>"]
  show ?case by (auto simp: map_name_updateFirst)
qed

lemma ensureStatusEntities_names: "set (map name es) \<subseteq> set (map name (ensureStatusEntities vs es))"
proof (induction vs arbitrary: es)
  case Nil
  show ?case by simp
next
  case (Cons v vs)
  let ?new = "\<lparr>name = ''status:'' @ v, entityType = ''status'',
               observations = [''A '' @ v @ '' status value'']\<rparr>"
  have "set (map name es) \<subseteq> set (map name (es @ [?new]))" by auto
  also have "\<dots> \<subseteq> set (map name (ensureStatusEntities vs (es @ [?new])))" by (rule Cons.IH)
  finally show ?case using Cons.IH [of es] by (simp add: Let_def)
qed

lemma ensurePriorityEntities_names: "set (map name es) \<subseteq> set (map name (ensurePriorityEntities vs es))"
proof (induction vs arbitrary: es)
  case Nil
  show ?case by simp
next
  case (Cons v vs)
  let ?new = "\<lparr>name = ''priority:'' @ v, entityType = ''priority'',
               observations = [''A '' @ v @ '' priority value'']\<rparr>"
  have "set (map name es) \<subseteq> set (map name (es @ [?new]))" by auto
  also have "\<dots> \<subseteq> set (map name (ensurePriorityEntities vs (es @ [?new])))" by (rule Cons.IH)
  finally show ?case using Cons.IH [of es] by (simp add: Let_def)
qed

lemma referentialIntegrity_names_mono:
  "referentialIntegrity g \<Longrightarrow> relations g' = relations g \<Longrightarrow>
   set (map name (entities g)) \<subseteq> set (map name (entities g')) \<Longrightarrow> referentialIntegrity g'"
  by (auto simp: referentialIntegrity_iff)

lemma createEntities_integrity:
  "referentialIntegrity (loadGraph file) \<Longrightarrow>
   referentialIntegrity (loadGraph (snd (createEntities T file batch)))"
  by (auto simp: createEntities_def createEntities_body_def referentialIntegrity_iff
      split: option.splits)

lemma createRelations_integrity:
  "referentialIntegrity (loadGraph file) \<Longrightarrow>
   referentialIntegrity (loadGraph (snd (createRelations T file batch)))"
  by (auto simp: createRelations_def createRelations_body_def referentialIntegrity_iff
      checkRelations_None_iff split: option.splits)

lemma addObservations_integrity:
  assumes "referentialIntegrity (loadGraph file)"
  shows "referentialIntegrity (loadGraph (snd (addObservations file batch)))"
proof (cases "addObservations_loop (loadGraph file) batch []")
  case (Throws e g)
  with assms show ?thesis by (simp add: addObservations_def)
next
  case (Returns res g')
  from addObservations_loop_frame [OF Returns] assms
  have "referentialIntegrity g'"
    by - (rule referentialIntegrity_names_mono [of "loadGraph file"], simp_all del: set_map)
  with Returns show ?thesis by (simp add: addObservations_def)
qed

lemma deleteEntities_integrity:
  "referentialIntegrity (loadGraph file) \<Longrightarrow>
   referentialIntegrity (loadGraph (snd (deleteEntities file names)))"
  by (auto simp: deleteEntities_def deleteEntities_body_def referentialIntegrity_iff)

lemma deleteObservations_integrity:
  assumes "referentialIntegrity (loadGraph file)"
  shows "referentialIntegrity (loadGraph (snd (deleteObservations file batch)))"
proof -
  from deleteObservations_loop_frame [of "loadGraph file" batch]
  obtain g' where g': "deleteObservations_loop (loadGraph file) batch = Returns () g'"
    "map name (entities g') = map name (entities (loadGraph file))"
    "relations g' = relations (loadGraph file)" by blast
  from assms g'(2,3) have "referentialIntegrity g'"
    by - (rule referentialIntegrity_names_mono [of "loadGraph file"], simp_all del: set_map)
  with g'(1) show ?thesis by (simp add: deleteObservations_def)
qed

lemma deleteRelations_integrity:
  "referentialIntegrity (loadGraph file) \<Longrightarrow>
   referentialIntegrity (loadGraph (snd (deleteRelations file batch)))"
  by (auto simp: deleteRelations_def deleteRelations_body_def referentialIntegrity_iff)

lemma initializeStatusAndPriority_integrity:
  assumes "referentialIntegrity (loadGraph file)"
  shows "referentialIntegrity (loadGraph (snd (initializeStatusAndPriority file)))"
proof -
  have "set (map name (entities (loadGraph file))) \<subseteq>
        set (map name (ensurePriorityEntities VALID_PRIORITY_VALUES
                (ensureStatusEntities VALID_STATUS_VALUES (entities (loadGraph file)))))"
    using ensureStatusEntities_names ensurePriorityEntities_names by (rule subset_trans)
  with assms have "referentialIntegrity
      ((loadGraph file)\<lparr>entities := ensurePriorityEntities VALID_PRIORITY_VALUES
                (ensureStatusEntities VALID_STATUS_VALUES (entities (loadGraph file)))\<rparr>)"
    by - (rule referentialIntegrity_names_mono [of "loadGraph file"], simp_all del: set_map)
  then show ?thesis
    by (simp add: initializeStatusAndPriority_def Let_def)
qed

lemma setEntityStatus_integrity:
  "referentialIntegrity (loadGraph file) \<Longrightarrow> anchored file (SetEntityStatus n v) \<Longrightarrow>
   referentialIntegrity (loadGraph (snd (setEntityStatus file n v)))"
  by (auto simp: setEntityStatus_def Let_def referentialIntegrity_iff)

lemma setEntityPriority_integrity:
  "referentialIntegrity (loadGraph file) \<Longrightarrow> anchored file (SetEntityPriority n v) \<Longrightarrow>
   referentialIntegrity (loadGraph (snd (setEntityPriority file n v)))"
  by (auto simp: setEntityPriority_def Let_def referentialIntegrity_iff)

lemma perform_integrity:
  "referentialIntegrity (loadGraph file) \<Longrightarrow> anchored file operation \<Longrightarrow>
   referentialIntegrity (loadGraph (perform T file operation))"
  by (cases operation)
     (simp_all only: perform.simps createEntities_integrity createRelations_integrity
        addObservations_integrity deleteEntities_integrity deleteObservations_integrity
        deleteRelations_integrity initializeStatusAndPriority_integrity
        setEntityStatus_integrity setEntityPriority_integrity)

subsection \<open>C8: referential integrity along sequences of mutations\<close>

text \<open>
  C8 (as amended). \<open>createEntities\<close>, \<open>createRelations\<close>, \<open>addObservations\<close>,
  \<open>deleteEntities\<close>, \<open>deleteObservations\<close>, \<open>deleteRelations\<close> and
  \<open>initializeStatusAndPriority\<close> each take a graph whose relations all join entities of the
  graph to such a graph, and so do \<open>setEntityStatus\<close> and \<open>setEntityPriority\<close> when the
  value is refused or both the named entity and the \<open>status:value\<close> or \<open>priority:value\<close>
  entity are in the graph. Hence the property holds after every sequence of these requests
  that starts from such a graph, the empty one included, and in which every status or priority
  request is anchored in this sense at the moment it is made.
\<close>

theorem referential_integrity_preserved:
  "referentialIntegrity (loadGraph None) \<and>
   (referentialIntegrity (loadGraph file) \<and> anchoredAll T file operations \<longrightarrow>
      referentialIntegrity (loadGraph (performAll T file operations)))"
proof
  show "referentialIntegrity (loadGraph None)"
    by (simp add: referentialIntegrity_def loadGraph_def)
  show "referentialIntegrity (loadGraph file) \<and> anchoredAll T file operations \<longrightarrow>
      referentialIntegrity (loadGraph (performAll T file operations))"
  proof (induction operations arbitrary: "file")
    case Nil
    show ?case by simp
  next
    case (Cons operation rest)
    show ?case
    proof
      assume h: "referentialIntegrity (loadGraph file) \<and> anchoredAll T file (operation # rest)"
      then have "referentialIntegrity (loadGraph (perform T file operation))"
        by (simp add: perform_integrity)
      with h Cons.IH [of "perform T file operation"] show
        "referentialIntegrity (loadGraph (performAll T file (operation # rest)))"
        by simp
    qed
  qed
qed

text \<open>
  A run of the \<^verbatim>\<open>part_000\<close> build from the missing file: the status entities are created,
  then project \<open>P1\<close>, which gets a status and a priority; a refused status value changes
  nothing; deleting \<open>status:active\<close> takes the status edge with it.
\<close>

theorem referential_integrity_preserved_witness:
  "anchoredAll part_000 None
     [InitializeStatusAndPriority,
      CreateEntities [\<lparr>name = ''P1'', entityType = ''project'', observations = []\<rparr>],
      SetEntityStatus ''P1'' ''active'',
      SetEntityStatus ''Ghost'' ''archived'',
      SetEntityPriority ''P1'' ''high'',
      DeleteEntities [''status:active'']] \<and>
   referentialIntegrity (loadGraph (performAll part_000 None
     [InitializeStatusAndPriority,
      CreateEntities [\<lparr>name = ''P1'', entityType = ''project'', observations = []\<rparr>],
      SetEntityStatus ''P1'' ''active'',
      SetEntityStatus ''Ghost'' ''archived'',
      SetEntityPriority ''P1'' ''high'',
      DeleteEntities [''status:active'']])) \<and>
   relations (loadGraph (performAll part_000 None
     [InitializeStatusAndPriority,
      CreateEntities [\<lparr>name = ''P1'', entityType = ''project'', observations = []\<rparr>],
      SetEntityStatus ''P1'' ''active'',
      SetEntityStatus ''Ghost'' ''archived'',
      SetEntityPriority ''P1'' ''high'',
      DeleteEntities [''status:active'']])) = [\<lparr>from = ''P1'', to = ''priority:high'', relationType = ''has_priority''\<rparr>]"
proof -
  let ?ops = "[InitializeStatusAndPriority,
      CreateEntities [\<lparr>name = ''P1'', entityType = ''project'', observations = []\<rparr>],
      SetEntityStatus ''P1'' ''active'',
      SetEntityStatus ''Ghost'' ''archived'',
      SetEntityPriority ''P1'' ''high'',
      DeleteEntities [''status:active'']]"
  have h: "anchoredAll part_000 None ?ops"
    by code_simp
  have r: "relations (loadGraph (performAll part_000 None ?ops)) =
             [\<lparr>from = ''P1'', to = ''priority:high'', relationType = ''has_priority''\<rparr>]"
    by code_simp
  from referential_integrity_preserved [of None part_000 ?ops] h
  have "referentialIntegrity (loadGraph (performAll part_000 None ?ops))" by blast
  with h r show ?thesis by blast
qed

text \<open>
  C8 as stated covers \<open>setEntityStatus\<close> and \<open>setEntityPriority\<close> without condition.
  From the missing file, after the status entities are created, setting the status of a name
  that is no entity leaves a relation whose \<open>from\<close> is no entity of the graph.
\<close>

theorem referential_integrity_counterexample:
  "referentialIntegrity (loadGraph None) \<and>
   relations (loadGraph (performAll part_000 None
     [InitializeStatusAndPriority, SetEntityStatus ''Ghost'' ''active'']))
   = [\<lparr>from = ''Ghost'', to = ''status:active'', relationType = ''has_status''\<rparr>] \<and>
   ''Ghost'' \<notin> set (map name (entities (loadGraph (performAll part_000 None
     [InitializeStatusAndPriority, SetEntityStatus ''Ghost'' ''active''])))) \<and>
   \<not> referentialIntegrity (loadGraph (performAll part_000 None
     [InitializeStatusAndPriority, SetEntityStatus ''Ghost'' ''active'']))"
  by code_simp

subsection \<open>Facts for C9: counting over relations\<close>

lemma find_typed_None_iff:
  "find (\<lambda>e. name e = n \<and> entityType e = ty) es = None \<longleftrightarrow>
     \<not> (\<exists>e \<in> set es. name e = n \<and> entityType e = ty)"
  by (auto simp: find_None_iff)

lemma find_typed_Some_iff:
  "(\<exists>y. find (\<lambda>e. name e = n \<and> entityType e = ty) es = Some y) \<longleftrightarrow>
     (\<exists>e \<in> set es. name e = n \<and> entityType e = ty)"
  using find_typed_None_iff [of n ty es]
  by (cases "find (\<lambda>e. name e = n \<and> entityType e = ty) es") simp_all

lemma find_typed_name: "find (\<lambda>e. name e = n \<and> entityType e = ty) es = Some e \<Longrightarrow> name e = n"
  by (auto simp: find_Some_iff)

lemma length_map_filter: "length (List.map_filter f xs) = length (filter (\<lambda>x. f x \<noteq> None) xs)"
  by (induction xs) (auto simp: map_filter_simps split: option.splits)

lemma length_datasetVariables:
  "length (datasetVariables graph dataset) = length (variableLinks graph (name dataset))"
  unfolding datasetVariables_def variableLinks_def length_map_filter
  by (rule arg_cong [where f = length], rule filter_cong [OF refl])
     (auto simp: find_typed_Some_iff)

lemma names_map_filter_find:
  "map name (List.map_filter
      (\<lambda>relation. if C relation
         then find (\<lambda>e. name e = from relation \<and> entityType e = ty) es else None) rs) =
   map from (filter (\<lambda>l. C l \<and> (\<exists>e \<in> set es. name e = from l \<and> entityType e = ty)) rs)"
proof (induction rs)
  case Nil
  show ?case by (simp add: map_filter_simps)
next
  case (Cons r rs)
  show ?case
  proof (cases "C r")
    case False
    with Cons.IH show ?thesis by (simp add: map_filter_simps)
  next
    case True
    show ?thesis
    proof (cases "find (\<lambda>e. name e = from r \<and> entityType e = ty) es")
      case None
      with True Cons.IH show ?thesis
        using find_typed_None_iff [of "from r" ty es] by (simp add: map_filter_simps)
    next
      case (Some e)
      then have "name e = from r" by (rule find_typed_name)
      moreover from Some have "\<exists>e \<in> set es. name e = from r \<and> entityType e = ty"
        using find_typed_None_iff [of "from r" ty es] by simp
      ultimately show ?thesis using True Some Cons.IH by (simp add: map_filter_simps)
    qed
  qed
qed

lemma names_partOfProject:
  "map name (partOfProject graph projectName ''dataset'') = map from (datasetLinks graph projectName)"
  unfolding partOfProject_def datasetLinks_def
  using names_map_filter_find
    [of "\<lambda>l. relationType l = ''part_of'' \<and> to l = projectName" "''dataset''" "entities graph"
        "relations graph"]
  by (simp add: conj_assoc)

lemma foldl_add_length:
  "foldl (\<lambda>total d. total + length (h d)) a ds = a + sum_list (map (\<lambda>d. length (h d)) ds)"
  by (induction ds arbitrary: a) simp_all

lemma total_eq_per_link:
  "foldl (\<lambda>total dataset. total + length (datasetVariables graph dataset)) 0
     (partOfProject graph projectName ''dataset'') =
   sum_list (map (\<lambda>l. length (variableLinks graph (from l))) (datasetLinks graph projectName))"
proof -
  have "map (\<lambda>d. length (datasetVariables graph d)) (partOfProject graph projectName ''dataset'')
        = map (\<lambda>n. length (variableLinks graph n))
            (map name (partOfProject graph projectName ''dataset''))"
    by (simp add: length_datasetVariables)
  also have "\<dots> = map (\<lambda>l. length (variableLinks graph (from l))) (datasetLinks graph projectName)"
    by (simp add: names_partOfProject)
  finally show ?thesis
    by (simp add: foldl_add_length)
qed

lemma per_link_eq_countedVariables:
  assumes "distinct (map from (datasetLinks graph projectName))"
  shows "sum_list (map (\<lambda>l. length (variableLinks graph (from l))) (datasetLinks graph projectName))
         = countedVariables graph projectName"
proof -
  from assms have "linkedDatasets graph projectName = map from (datasetLinks graph projectName)"
    by (simp add: linkedDatasets_def distinct_remdups_id)
  then show ?thesis
    by (simp add: countedVariables_def comp_def)
qed

subsection \<open>C9: the variable count of a project overview\<close>

text \<open>
  C9 (as amended). \<open>getProjectOverview\<close> leaves the file as it is, and fails when the graph
  has no entity of type \<open>project\<close> with the given name. When it returns an overview, its
  \<open>totalVariables\<close> is the sum, over the \<open>part_of\<close> relations that link a dataset to the
  project, of the number of \<open>contains\<close> relations from that dataset to an entity of type
  \<open>variable\<close>: a dataset that two stored relations link to the project is counted twice.
  When no two of these relations come from the same dataset, this is the count over all
  linked datasets. For a project with one dataset, linked by one relation, and one
  \<open>contains\<close> relation from that dataset to a variable, it is 1.
\<close>

theorem getProjectOverview_totalVariables:
  "snd (getProjectOverview file projectName) = file \<and>
   (find (\<lambda>e. name e = projectName \<and> entityType e = ''project'') (entities (loadGraph file)) = None
      \<longrightarrow> fst (getProjectOverview file projectName) = Inl (ProjectNotFound projectName)) \<and>
   (fst (getProjectOverview file projectName) = Inr overview \<longrightarrow>
      totalVariables (dataCollection overview) =
        sum_list (map (\<lambda>l. length (variableLinks (loadGraph file) (from l)))
                    (datasetLinks (loadGraph file) projectName))) \<and>
   (fst (getProjectOverview file projectName) = Inr overview \<and>
    distinct (map from (datasetLinks (loadGraph file) projectName)) \<longrightarrow>
      totalVariables (dataCollection overview) = countedVariables (loadGraph file) projectName) \<and>
   (find (\<lambda>e. name e = projectName \<and> entityType e = ''project'') (entities (loadGraph file)) = Some p \<and>
    datasetLinks (loadGraph file) projectName = [l] \<and>
    variableLinks (loadGraph file) (from l) = [r] \<longrightarrow>
      (\<exists>ov. fst (getProjectOverview file projectName) = Inr ov \<and>
            totalVariables (dataCollection ov) = 1 \<and>
            countedVariables (loadGraph file) projectName = 1))"
proof (intro conjI impI)
  show "snd (getProjectOverview file projectName) = file"
    by (simp add: getProjectOverview_def Let_def split: option.splits)
next
  assume "find (\<lambda>e. name e = projectName \<and> entityType e = ''project'') (entities (loadGraph file)) = None"
  then show "fst (getProjectOverview file projectName) = Inl (ProjectNotFound projectName)"
    by (simp add: getProjectOverview_def Let_def)
next
  assume "fst (getProjectOverview file projectName) = Inr overview"
  then show "totalVariables (dataCollection overview) =
        sum_list (map (\<lambda>l. length (variableLinks (loadGraph file) (from l)))
                    (datasetLinks (loadGraph file) projectName))"
    by (auto simp: getProjectOverview_def Let_def total_eq_per_link split: option.splits)
next
  assume h: "fst (getProjectOverview file projectName) = Inr overview \<and>
    distinct (map from (datasetLinks (loadGraph file) projectName))"
  then have "totalVariables (dataCollection overview) =
        sum_list (map (\<lambda>l. length (variableLinks (loadGraph file) (from l)))
                    (datasetLinks (loadGraph file) projectName))"
    by (auto simp: getProjectOverview_def Let_def total_eq_per_link split: option.splits)
  with h show "totalVariables (dataCollection overview) = countedVariables (loadGraph file) projectName"
    by (simp add: per_link_eq_countedVariables)
next
  assume h: "find (\<lambda>e. name e = projectName \<and> entityType e = ''project'') (entities (loadGraph file)) = Some p \<and>
    datasetLinks (loadGraph file) projectName = [l] \<and>
    variableLinks (loadGraph file) (from l) = [r]"
  then have one: "countedVariables (loadGraph file) projectName = 1"
    by (simp add: countedVariables_def linkedDatasets_def)
  from h have "sum_list (map (\<lambda>l. length (variableLinks (loadGraph file) (from l)))
                    (datasetLinks (loadGraph file) projectName)) = 1"
    by simp
  with h one show "\<exists>ov. fst (getProjectOverview file projectName) = Inr ov \<and>
            totalVariables (dataCollection ov) = 1 \<and>
            countedVariables (loadGraph file) projectName = 1"
    by (simp add: getProjectOverview_def Let_def total_eq_per_link)
qed

text \<open>
  The spec's example, with a hypothesis beside it: dataset \<open>D\<close> is part of \<open>Proj\<close> and
  contains variable \<open>V\<close>. The hypothesis is no dataset, and what \<open>D\<close> contains besides
  \<open>V\<close> is no variable.
\<close>

theorem getProjectOverview_totalVariables_witness:
  "snd (getProjectOverview
      (Some \<lparr>entities =
             [\<lparr>name = ''Proj'', entityType = ''project'', observations = []\<rparr>,
              \<lparr>name = ''D'', entityType = ''dataset'', observations = []\<rparr>,
              \<lparr>name = ''V'', entityType = ''variable'', observations = []\<rparr>,
              \<lparr>name = ''H'', entityType = ''hypothesis'', observations = []\<rparr>],
            relations =
             [\<lparr>from = ''D'', to = ''Proj'', relationType = ''part_of''\<rparr>,
              \<lparr>from = ''H'', to = ''Proj'', relationType = ''part_of''\<rparr>,
              \<lparr>from = ''D'', to = ''V'', relationType = ''contains''\<rparr>,
              \<lparr>from = ''D'', to = ''H'', relationType = ''contains''\<rparr>]\<rparr>)
      ''Proj'')
   = (Some \<lparr>entities =
             [\<lparr>name = ''Proj'', entityType = ''project'', observations = []\<rparr>,
              \<lparr>name = ''D'', entityType = ''dataset'', observations = []\<rparr>,
              \<lparr>name = ''V'', entityType = ''variable'', observations = []\<rparr>,
              \<lparr>name = ''H'', entityType = ''hypothesis'', observations = []\<rparr>],
            relations =
             [\<lparr>from = ''D'', to = ''Proj'', relationType = ''part_of''\<rparr>,
              \<lparr>from = ''H'', to = ''Proj'', relationType = ''part_of''\<rparr>,
              \<lparr>from = ''D'', to = ''V'', relationType = ''contains''\<rparr>,
              \<lparr>from = ''D'', to = ''H'', relationType = ''contains''\<rparr>]\<rparr>) \<and>
   (\<exists>ov. fst (getProjectOverview
      (Some \<lparr>entities =
             [\<lparr>name = ''Proj'', entityType = ''project'', observations = []\<rparr>,
              \<lparr>name = ''D'', entityType = ''dataset'', observations = []\<rparr>,
              \<lparr>name = ''V'', entityType = ''variable'', observations = []\<rparr>,
              \<lparr>name = ''H'', entityType = ''hypothesis'', observations = []\<rparr>],
            relations =
             [\<lparr>from = ''D'', to = ''Proj'', relationType = ''part_of''\<rparr>,
              \<lparr>from = ''H'', to = ''Proj'', relationType = ''part_of''\<rparr>,
              \<lparr>from = ''D'', to = ''V'', relationType = ''contains''\<rparr>,
              \<lparr>from = ''D'', to = ''H'', relationType = ''contains''\<rparr>]\<rparr>)
      ''Proj'') = Inr ov \<and> totalVariables (dataCollection ov) = 1 \<and>
      countedVariables (loadGraph
      (Some \<lparr>entities =
             [\<lparr>name = ''Proj'', entityType = ''project'', observations = []\<rparr>,
              \<lparr>name = ''D'', entityType = ''dataset'', observations = []\<rparr>,
              \<lparr>name = ''V'', entityType = ''variable'', observations = []\<rparr>,
              \<lparr>name = ''H'', entityType = ''hypothesis'', observations = []\<rparr>],
            relations =
             [\<lparr>from = ''D'', to = ''Proj'', relationType = ''part_of''\<rparr>,
              \<lparr>from = ''H'', to = ''Proj'', relationType = ''part_of''\<rparr>,
              \<lparr>from = ''D'', to = ''V'', relationType = ''contains''\<rparr>,
              \<lparr>from = ''D'', to = ''H'', relationType = ''contains''\<rparr>]\<rparr>)) ''Proj'' = 1)"
proof -
  let ?file = "(Some \<lparr>entities =
             [\<lparr>name = ''Proj'', entityType = ''project'', observations = []\<rparr>,
              \<lparr>name = ''D'', entityType = ''dataset'', observations = []\<rparr>,
              \<lparr>name = ''V'', entityType = ''variable'', observations = []\<rparr>,
              \<lparr>name = ''H'', entityType = ''hypothesis'', observations = []\<rparr>],
            relations =
             [\<lparr>from = ''D'', to = ''Proj'', relationType = ''part_of''\<rparr>,
              \<lparr>from = ''H'', to = ''Proj'', relationType = ''part_of''\<rparr>,
              \<lparr>from = ''D'', to = ''V'', relationType = ''contains''\<rparr>,
              \<lparr>from = ''D'', to = ''H'', relationType = ''contains''\<rparr>]\<rparr>)"
  have h: "find (\<lambda>e. name e = ''Proj'' \<and> entityType e = ''project'') (entities (loadGraph ?file))
             = Some \<lparr>name = ''Proj'', entityType = ''project'', observations = []\<rparr> \<and>
           datasetLinks (loadGraph ?file) ''Proj''
             = [\<lparr>from = ''D'', to = ''Proj'', relationType = ''part_of''\<rparr>] \<and>
           variableLinks (loadGraph ?file) (from \<lparr>from = ''D'', to = ''Proj'', relationType = ''part_of''\<rparr>)
             = [\<lparr>from = ''D'', to = ''V'', relationType = ''contains''\<rparr>]"
    by code_simp
  from getProjectOverview_totalVariables
         [of ?file "''Proj''" _ "\<lparr>name = ''Proj'', entityType = ''project'', observations = []\<rparr>"
             "\<lparr>from = ''D'', to = ''Proj'', relationType = ''part_of''\<rparr>"
             "\<lparr>from = ''D'', to = ''V'', relationType = ''contains''\<rparr>"] h
  show ?thesis by blast
qed

text \<open>
  C9 as stated gives 1 for a project with dataset \<open>D\<close> and variable \<open>V\<close>, and in general the
  count over the linked datasets. One \<open>createRelations\<close> batch may store the relation from
  \<open>D\<close> to the project twice, since its duplicate filter looks at the stored relations only.
  The graph then has one project, one linked dataset and one variable in it, the count over
  the linked datasets is 1, and \<open>totalVariables\<close> is 2.
\<close>

theorem getProjectOverview_totalVariables_counterexample:
  "linkedDatasets (loadGraph
     (performAll index_ts None
        [CreateEntities
           [\<lparr>name = ''Proj'', entityType = ''project'', observations = []\<rparr>,
            \<lparr>name = ''D'', entityType = ''dataset'', observations = []\<rparr>,
            \<lparr>name = ''V'', entityType = ''variable'', observations = []\<rparr>],
         CreateRelations
           [\<lparr>from = ''D'', to = ''Proj'', relationType = ''part_of''\<rparr>,
            \<lparr>from = ''D'', to = ''Proj'', relationType = ''part_of''\<rparr>,
            \<lparr>from = ''D'', to = ''V'', relationType = ''contains''\<rparr>]])) ''Proj'' = [''D''] \<and>
   variableLinks (loadGraph
     (performAll index_ts None
        [CreateEntities
           [\<lparr>name = ''Proj'', entityType = ''project'', observations = []\<rparr>,
            \<lparr>name = ''D'', entityType = ''dataset'', observations = []\<rparr>,
            \<lparr>name = ''V'', entityType = ''variable'', observations = []\<rparr>],
         CreateRelations
           [\<lparr>from = ''D'', to = ''Proj'', relationType = ''part_of''\<rparr>,
            \<lparr>from = ''D'', to = ''Proj'', relationType = ''part_of''\<rparr>,
            \<lparr>from = ''D'', to = ''V'', relationType = ''contains''\<rparr>]])) ''D'' = [\<lparr>from = ''D'', to = ''V'', relationType = ''contains''\<rparr>] \<and>
   countedVariables (loadGraph
     (performAll index_ts None
        [CreateEntities
           [\<lparr>name = ''Proj'', entityType = ''project'', observations = []\<rparr>,
            \<lparr>name = ''D'', entityType = ''dataset'', observations = []\<rparr>,
            \<lparr>name = ''V'', entityType = ''variable'', observations = []\<rparr>],
         CreateRelations
           [\<lparr>from = ''D'', to = ''Proj'', relationType = ''part_of''\<rparr>,
            \<lparr>from = ''D'', to = ''Proj'', relationType = ''part_of''\<rparr>,
            \<lparr>from = ''D'', to = ''V'', relationType = ''contains''\<rparr>]])) ''Proj'' = 1 \<and>
   (case fst (getProjectOverview
     (performAll index_ts None
        [CreateEntities
           [\<lparr>name = ''Proj'', entityType = ''project'', observations = []\<rparr>,
            \<lparr>name = ''D'', entityType = ''dataset'', observations = []\<rparr>,
            \<lparr>name = ''V'', entityType = ''variable'', observations = []\<rparr>],
         CreateRelations
           [\<lparr>from = ''D'', to = ''Proj'', relationType = ''part_of''\<rparr>,
            \<lparr>from = ''D'', to = ''Proj'', relationType = ''part_of''\<rparr>,
            \<lparr>from = ''D'', to = ''V'', relationType = ''contains''\<rparr>]]) ''Proj'') of
      Inl e \<Rightarrow> None
    | Inr ov \<Rightarrow> Some (totalVariables (dataCollection ov))) = Some 2"
  by code_simp

subsection \<open>Facts for C10: orderly pieces of the commit, its trace, and the relations calls leave\<close>




lemma fold_rest: "fold f (x # xs) = (\<lambda>r. fold f xs (f x r))"
  by (rule ext) simp















































subsection \<open>C10: an update in the commit of a session is a delete and a create\<close>




end
